theory Spec2Isabelle
  imports Main "HOL-Library.Word" "HOL-Library.Monad_Syntax"
begin

unbundle bit_operations_syntax

section \<open>Machine types\<close>

type_synonym u8 = "8 word"
type_synonym u16 = "16 word"
type_synonym u32 = "32 word"
type_synonym u64 = "64 word"

section \<open>What the two example programs link against\<close>

text \<open>
  The examples \<^verbatim>\<open>virtual_keyboard/main.c\<close> and \<^verbatim>\<open>virtual_x360_pad/main.c\<close> call the
  client library declared in \<^verbatim>\<open>viiper.h\<close>, whose implementation is not part of the
  examples. The programs are therefore modelled over an arbitrary implementation of
  that interface: a record of functions on a world state \<open>'w\<close> (the hub, the
  connection, the client object and the C heap). Every observable action of a
  program is appended to a trace of events.
\<close>

text \<open>
  Modelled from the spec: the result codes of \<^verbatim>\<open>viiper_error_t\<close>. The header that
  declares them is missing; the programs only compare against \<^verbatim>\<open>VIIPER_OK\<close>. The
  failing codes follow the error taxonomy of the specification.
\<close>

datatype rpc_error = Protocol | Remote string | Timeout | Transport

datatype device_error = Closed | DeviceTransport

datatype viiper_error_t =
    VIIPER_OK
  | ConnectionError
  | RpcError rpc_error
  | DeviceError device_error

text \<open>\<^verbatim>\<open>viiper_device_info_t\<close>: the two fields the programs read, both nullable strings.\<close>

record viiper_device_info_t =
  DevId :: "string option"
  Type :: "string option"

text \<open>Arguments of a \<^verbatim>\<open>printf\<close> conversion: \<^verbatim>\<open>%u\<close>, \<^verbatim>\<open>%llu\<close>, \<^verbatim>\<open>%04x\<close> take a number, \<^verbatim>\<open>%s\<close> a string.\<close>

datatype arg = U nat | S string

datatype event =
    Printf string "arg list"
  | Fprintf_stderr string "arg list"
  | Sleep_ms int
  | Client_create string u16
  | Client_free
  | Bus_list
  | Free_bus_list_response
  | Bus_create
  | Bus_remove u32
  | Add_device_and_connect u32 string
  | Device_on_output nat
  | Device_send nat "u8 list"
  | Device_close nat

record 'w env =
  viiper_client_create :: "string \<Rightarrow> u16 \<Rightarrow> 'w \<Rightarrow> viiper_error_t \<times> 'w"
  viiper_client_free :: "'w \<Rightarrow> 'w"
  viiper_get_error :: "'w \<Rightarrow> string"
  viiper_bus_list :: "'w \<Rightarrow> (viiper_error_t \<times> u32 list) \<times> 'w"
  viiper_bus_create :: "'w \<Rightarrow> (viiper_error_t \<times> u32) \<times> 'w"
  viiper_bus_remove :: "u32 \<Rightarrow> 'w \<Rightarrow> viiper_error_t \<times> 'w"
  viiper_add_device_and_connect ::
    "u32 \<Rightarrow> string \<Rightarrow> 'w \<Rightarrow> (viiper_error_t \<times> viiper_device_info_t \<times> nat option) \<times> 'w"
  viiper_device_on_output :: "nat \<Rightarrow> 'w \<Rightarrow> 'w"
  viiper_device_send :: "nat \<Rightarrow> u8 list \<Rightarrow> 'w \<Rightarrow> viiper_error_t \<times> 'w"
  viiper_device_close :: "nat \<Rightarrow> 'w \<Rightarrow> 'w"
  heap_cells :: "nat \<Rightarrow> 'w \<Rightarrow> (nat \<Rightarrow> u8) option \<times> 'w"
  stack_cells :: "nat \<Rightarrow> char"
  atoi_overflow :: "int \<Rightarrow> 32 word"

text \<open>The state a program threads through its calls: the world and the trace so far.\<close>

type_synonym 'w st = "'w \<times> event list"

definition emit :: "event \<Rightarrow> 'w st \<Rightarrow> 'w st" where
  "emit e s = (fst s, snd s @ [e])"

section \<open>C memory primitives\<close>

text \<open>
  \<^verbatim>\<open>malloc(n)\<close> either fails (a null pointer) or returns \<open>n\<close> bytes of unspecified
  content; \<open>heap_cells\<close> supplies the outcome and that content.
\<close>

definition malloc :: "'w env \<Rightarrow> nat \<Rightarrow> 'w \<Rightarrow> u8 list option \<times> 'w" where
  "malloc env n w =
     (case heap_cells env n w of
        (None, w') \<Rightarrow> (None, w')
      | (Some cells, w') \<Rightarrow> (Some (map cells [0..<n]), w'))"

text \<open>
  \<^verbatim>\<open>memcpy(dst + off, src, n)\<close>: undefined (\<open>None\<close>) when the source is a null
  pointer or either range leaves its array.
\<close>

definition memcpy :: "'a list \<Rightarrow> nat \<Rightarrow> 'a list option \<Rightarrow> nat \<Rightarrow> 'a list option" where
  "memcpy dst off src n =
     (case src of
        None \<Rightarrow> None
      | Some from \<Rightarrow>
          if n \<le> length from \<and> off + n \<le> length dst
          then Some (take off dst @ take n from @ drop (off + n) dst)
          else None)"

text \<open>A store \<^verbatim>\<open>a[i] = v\<close>: undefined outside the array.\<close>

definition store :: "'a list \<Rightarrow> nat \<Rightarrow> 'a \<Rightarrow> 'a list option" where
  "store a i v = (if i < length a then Some (a[i := v]) else None)"

text \<open>A load \<^verbatim>\<open>a[i]\<close>: undefined outside the array.\<close>

definition load :: "'a list \<Rightarrow> nat \<Rightarrow> 'a option" where
  "load a i = (if i < length a then Some (a ! i) else None)"

text \<open>Reading a character array as a C string: up to the first NUL, undefined without one.\<close>

definition c_string :: "string \<Rightarrow> string option" where
  "c_string a =
     (if CHR 0x00 \<in> set a then Some (takeWhile (\<lambda>c. c \<noteq> CHR 0x00) a) else None)"

section \<open>Both programs: \<^verbatim>\<open>sleep_ms\<close> and \<^verbatim>\<open>choose_or_create_bus\<close>\<close>

definition sleep_ms :: "int \<Rightarrow> 'w st \<Rightarrow> 'w st" where
  "sleep_ms ms s = emit (Sleep_ms ms) s"

text \<open>A library call made by a program: the call is logged, the library acts on the world.\<close>

definition client_create :: "'w env \<Rightarrow> string \<Rightarrow> u16 \<Rightarrow> 'w st \<Rightarrow> viiper_error_t \<times> 'w st" where
  "client_create env host port s =
     (case viiper_client_create env host port (fst s) of
        (rc, w') \<Rightarrow> (rc, (w', snd s @ [Client_create host port])))"

definition client_free :: "'w env \<Rightarrow> 'w st \<Rightarrow> 'w st" where
  "client_free env s = (viiper_client_free env (fst s), snd s @ [Client_free])"

definition add_device_and_connect ::
  "'w env \<Rightarrow> u32 \<Rightarrow> string \<Rightarrow> 'w st \<Rightarrow>
     (viiper_error_t \<times> viiper_device_info_t \<times> nat option) \<times> 'w st" where
  "add_device_and_connect env busId deviceType s =
     (case viiper_add_device_and_connect env busId deviceType (fst s) of
        (r, w') \<Rightarrow> (r, (w', snd s @ [Add_device_and_connect busId deviceType])))"

definition device_on_output :: "'w env \<Rightarrow> nat \<Rightarrow> 'w st \<Rightarrow> 'w st" where
  "device_on_output env dev s =
     (viiper_device_on_output env dev (fst s), snd s @ [Device_on_output dev])"

definition device_send :: "'w env \<Rightarrow> nat \<Rightarrow> u8 list \<Rightarrow> 'w st \<Rightarrow> viiper_error_t \<times> 'w st" where
  "device_send env dev bytes s =
     (case viiper_device_send env dev bytes (fst s) of
        (rc, w') \<Rightarrow> (rc, (w', snd s @ [Device_send dev bytes])))"

definition device_close :: "'w env \<Rightarrow> nat \<Rightarrow> 'w st \<Rightarrow> 'w st" where
  "device_close env dev s = (viiper_device_close env dev (fst s), snd s @ [Device_close dev])"

definition bus_remove :: "'w env \<Rightarrow> u32 \<Rightarrow> 'w st \<Rightarrow> viiper_error_t \<times> 'w st" where
  "bus_remove env busId s =
     (case viiper_bus_remove env busId (fst s) of
        (rc, w') \<Rightarrow> (rc, (w', snd s @ [Bus_remove busId])))"

text \<open>
  The scan for the smallest listed identifier,
  \<^verbatim>\<open>for (i = 1; i < list.buses_count; ++i) if (list.Buses[i] < busId) busId = list.Buses[i];\<close>
  The response is a list, so \<^verbatim>\<open>buses_count\<close> is its length.
\<close>

function min_loop :: "u32 list \<Rightarrow> nat \<Rightarrow> u32 \<Rightarrow> u32" where
  "min_loop Buses i busId =
     (if i < length Buses
      then min_loop Buses (Suc i) (if Buses ! i < busId then Buses ! i else busId)
      else busId)"
  by pat_completeness auto
termination
  by (relation "measure (\<lambda>(Buses, i, busId). length Buses - i)") auto

declare min_loop.simps [simp del]

text \<open>
  \<^verbatim>\<open>choose_or_create_bus\<close> is the same function in both programs (they differ in
  layout only).
\<close>

definition choose_or_create_bus :: "'w env \<Rightarrow> 'w st \<Rightarrow> u32 \<times> 'w st" where
  "choose_or_create_bus env s =
     (case viiper_bus_list env (fst s) of
        ((rc, Buses), w1) \<Rightarrow>
          let s1 = (w1, snd s @ [Bus_list]) in
          if rc \<noteq> VIIPER_OK then
            (0, emit (Fprintf_stderr ''BusList error: %s\<newline>'' [S (viiper_get_error env w1)]) s1)
          else if length Buses > 0 then
            let busId = min_loop Buses 1 (Buses ! 0) in
            (busId,
             emit Free_bus_list_response
               (emit (Printf ''Using existing bus %u\<newline>'' [U (unat busId)]) s1))
          else
            (case viiper_bus_create env w1 of
               ((rc2, BusID), w2) \<Rightarrow>
                 let s2 = (w2, snd s1 @ [Free_bus_list_response, Bus_create]) in
                 if rc2 = VIIPER_OK then
                   (BusID, emit (Printf ''Created bus %u\<newline>'' [U (unat BusID)]) s2)
                 else
                   (0, emit (Fprintf_stderr ''BusCreate failed: %s\<newline>''
                               [S (viiper_get_error env w2)]) s2)))"

section \<open>The keyboard program\<close>

text \<open>
  The constants of \<^verbatim>\<open>viiper_keyboard.h\<close> that the program uses. The header is
  missing, so they are a parameter of the model.
\<close>

record viiper_keyboard_h =
  VIIPER_KEYBOARD_LED_NUM_LOCK :: u8
  VIIPER_KEYBOARD_LED_CAPS_LOCK :: u8
  VIIPER_KEYBOARD_LED_SCROLL_LOCK :: u8
  VIIPER_KEYBOARD_LED_COMPOSE :: u8
  VIIPER_KEYBOARD_LED_KANA :: u8
  VIIPER_KEYBOARD_KEY_H :: u8
  VIIPER_KEYBOARD_KEY_E :: u8
  VIIPER_KEYBOARD_KEY_L :: u8
  VIIPER_KEYBOARD_KEY_O :: u8
  VIIPER_KEYBOARD_KEY1 :: u8
  VIIPER_KEYBOARD_KEY_ENTER :: u8

text \<open>
  Modelled from the spec: \<^verbatim>\<open>VIIPER_KEYBOARD_MOD_LEFT_SHIFT\<close> of the missing header
  \<^verbatim>\<open>viiper_keyboard.h\<close>; the specification gives the modifier bit as \<open>0x02\<close>.
\<close>

definition VIIPER_KEYBOARD_MOD_LEFT_SHIFT :: u8 where
  "VIIPER_KEYBOARD_MOD_LEFT_SHIFT = 0x02"

subsection \<open>\<^verbatim>\<open>on_leds\<close>\<close>

definition led_bit :: "u8 \<Rightarrow> u8 \<Rightarrow> arg" where
  "led_bit b m = U (if b AND m \<noteq> 0 then 1 else 0)"

definition leds_format :: string where
  "leds_format =
     [CHR 0xE2, CHR 0x86, CHR 0x92] @
     '' LEDs: Num=%u Caps=%u Scroll=%u Compose=%u Kana=%u\<newline>''"

definition leds_line :: "viiper_keyboard_h \<Rightarrow> u8 \<Rightarrow> event" where
  "leds_line h b =
     Printf leds_format
       [led_bit b (VIIPER_KEYBOARD_LED_NUM_LOCK h),
        led_bit b (VIIPER_KEYBOARD_LED_CAPS_LOCK h),
        led_bit b (VIIPER_KEYBOARD_LED_SCROLL_LOCK h),
        led_bit b (VIIPER_KEYBOARD_LED_COMPOSE h),
        led_bit b (VIIPER_KEYBOARD_LED_KANA h)]"

text \<open>
  The loop of \<^verbatim>\<open>on_leds\<close> over \<^verbatim>\<open>i = 0 .. bytes_read - 1\<close>; \<open>out\<close> collects the lines
  printed so far. The delivered buffer is a list; a read past its end is undefined.
\<close>

function on_leds_loop ::
  "viiper_keyboard_h \<Rightarrow> u8 list \<Rightarrow> nat \<Rightarrow> nat \<Rightarrow> event list \<Rightarrow> event list option" where
  "on_leds_loop h led_data bytes_read i out =
     (if i < bytes_read then
        (case load led_data i of
           None \<Rightarrow> None
         | Some b \<Rightarrow> on_leds_loop h led_data bytes_read (Suc i) (out @ [leds_line h b]))
      else Some out)"
  by pat_completeness auto
termination
  by (relation "measure (\<lambda>(h, led_data, bytes_read, i, out). bytes_read - i)") auto

declare on_leds_loop.simps [simp del]

definition on_leds :: "viiper_keyboard_h \<Rightarrow> u8 list \<Rightarrow> nat \<Rightarrow> event list option" where
  "on_leds h buffer bytes_read =
     (if bytes_read = 0 then Some [] else on_leds_loop h buffer bytes_read 0 [])"

subsection \<open>\<^verbatim>\<open>send_keys\<close>, \<^verbatim>\<open>press_and_release\<close>, \<^verbatim>\<open>type_string_hello\<close>\<close>

text \<open>
  \<^verbatim>\<open>keys\<close> is a nullable pointer to an array; \<open>None\<close> is the null pointer. The result
  \<open>None\<close> stands for undefined behaviour (a copy from a null pointer or past the end
  of \<^verbatim>\<open>keys\<close>). The result of \<^verbatim>\<open>viiper_device_send\<close> is discarded, as in the source.
\<close>

definition send_keys ::
  "'w env \<Rightarrow> nat \<Rightarrow> u8 \<Rightarrow> u8 list option \<Rightarrow> u8 \<Rightarrow> 'w st \<Rightarrow> 'w st option" where
  "send_keys env dev modifiers keys nkeys s =
     (if keys = None \<and> nkeys \<noteq> 0 then Some s
      else
        let pkt_len = 2 + unat nkeys in
        (case malloc env pkt_len (fst s) of
           (None, w1) \<Rightarrow> Some (w1, snd s)
         | (Some buf0, w1) \<Rightarrow>
             do {
               buf1 \<leftarrow> store buf0 0 modifiers;
               buf2 \<leftarrow> store buf1 1 nkeys;
               buf3 \<leftarrow> (if nkeys \<noteq> 0 \<and> keys \<noteq> None
                        then memcpy buf2 2 keys (unat nkeys) else Some buf2);
               (if pkt_len \<le> length buf3
                then Some (snd (device_send env dev (take pkt_len buf3) (w1, snd s)))
                else None)
             }))"

definition press_and_release :: "'w env \<Rightarrow> nat \<Rightarrow> u8 \<Rightarrow> u8 \<Rightarrow> 'w st \<Rightarrow> 'w st option" where
  "press_and_release env dev modifiers key s =
     do {
       s1 \<leftarrow> send_keys env dev modifiers (Some [key]) 1 s;
       s2 \<leftarrow> send_keys env dev 0 None 0 (sleep_ms 100 s1);
       Some (sleep_ms 100 s2)
     }"

definition type_string_hello ::
  "'w env \<Rightarrow> viiper_keyboard_h \<Rightarrow> nat \<Rightarrow> 'w st \<Rightarrow> 'w st option" where
  "type_string_hello env h dev s =
     do {
       s1 \<leftarrow> press_and_release env dev VIIPER_KEYBOARD_MOD_LEFT_SHIFT (VIIPER_KEYBOARD_KEY_H h) s;
       s2 \<leftarrow> press_and_release env dev 0 (VIIPER_KEYBOARD_KEY_E h) s1;
       s3 \<leftarrow> press_and_release env dev 0 (VIIPER_KEYBOARD_KEY_L h) s2;
       s4 \<leftarrow> press_and_release env dev 0 (VIIPER_KEYBOARD_KEY_L h) s3;
       s5 \<leftarrow> press_and_release env dev 0 (VIIPER_KEYBOARD_KEY_O h) s4;
       press_and_release env dev VIIPER_KEYBOARD_MOD_LEFT_SHIFT (VIIPER_KEYBOARD_KEY1 h) s5
     }"


section \<open>Both programs: \<^verbatim>\<open>main\<close> up to its loop\<close>

subsection \<open>The address argument\<close>

text \<open>\<^verbatim>\<open>strrchr(s, c)\<close>: the index of the last occurrence of \<open>c\<close>, \<open>None\<close> for a null result.\<close>

fun strrchr :: "string \<Rightarrow> char \<Rightarrow> nat option" where
  "strrchr [] c = None"
| "strrchr (x # xs) c =
     (case strrchr xs c of
        Some i \<Rightarrow> Some (Suc i)
      | None \<Rightarrow> if x = c then Some 0 else None)"

definition isspace :: "char \<Rightarrow> bool" where
  "isspace c = (c \<in> set [CHR '' '', CHR 0x09, CHR 0x0A, CHR 0x0B, CHR 0x0C, CHR 0x0D])"

definition isdigit :: "char \<Rightarrow> bool" where
  "isdigit c = (48 \<le> (of_char c :: nat) \<and> (of_char c :: nat) \<le> 57)"

fun digits :: "string \<Rightarrow> int \<Rightarrow> int" where
  "digits [] acc = acc"
| "digits (c # cs) acc =
     (if isdigit c then digits cs (acc * 10 + (of_char c - 48)) else acc)"

text \<open>
  \<^verbatim>\<open>atoi\<close> of the C library: white space, an optional sign, then the longest run of
  decimal digits; no digits give 0. The result is an \<^verbatim>\<open>int\<close> of 32 bits. For a number
  that does not fit, the C standard fixes no result and the libraries differ (one
  keeps the low bits, another stops at the largest value), but each returns some
  \<^verbatim>\<open>int\<close> and the program goes on: that result is \<open>atoi_overflow\<close> of the
  environment.
\<close>

definition atoi :: "'w env \<Rightarrow> string \<Rightarrow> 32 word" where
  "atoi env s =
     (let t = dropWhile isspace s;
          v = (case t of
                 [] \<Rightarrow> 0
               | c # cs \<Rightarrow>
                   if c = CHR ''-'' then - digits cs 0
                   else if c = CHR ''+'' then digits cs 0
                   else digits t 0)
      in if - (2 ^ 31) \<le> v \<and> v < 2 ^ 31 then word_of_int v else atoi_overflow env v)"

text \<open>\<^verbatim>\<open>snprintf(dst, n, "%s", str)\<close>: at most \<open>n - 1\<close> characters and a NUL.\<close>

definition snprintf_s :: "string \<Rightarrow> nat \<Rightarrow> string \<Rightarrow> string option" where
  "snprintf_s dst n str =
     (if n = 0 then Some dst
      else let out = take (n - 1) str @ [CHR 0x00]
           in memcpy dst 0 (Some out) (length out))"

text \<open>
  The argument handling of \<^verbatim>\<open>main\<close>, identical in both programs up to the name in the
  usage line: \<^verbatim>\<open>char host[256]; uint16_t port = 3242;\<close> and the three cases on
  \<^verbatim>\<open>argc\<close>. \<open>argv\<close> includes the program name, \<^verbatim>\<open>argc\<close> is its length; its entries
  are C strings, given without their final NUL.

  \<open>main_host\<close> is the array \<^verbatim>\<open>host\<close> after
  \<^verbatim>\<open>len = colon - addr; if (len >= sizeof(host)) len = sizeof(host)-1;
  memcpy(host, addr, len); host[len] = 0;\<close>, where \<open>colon\<close> is the index of the last
  colon; \<open>None\<close> if a write left the array.
\<close>

definition main_host :: "'w env \<Rightarrow> string \<Rightarrow> nat \<Rightarrow> string option" where
  "main_host env addr colon =
     (let host0 = map (stack_cells env) [0..<256];
          len = (if colon \<ge> 256 then 256 - 1 else colon)
      in do {
           host1 \<leftarrow> memcpy host0 0 (Some addr) len;
           store host1 len (CHR 0x00)
         })"

text \<open>
  The result of the argument handling is \<open>None\<close> for undefined behaviour (a write
  outside the array, or an array without a NUL; neither happens, see
  \<open>main_address_defined\<close>), \<open>Some None\<close> for the usage exit, and otherwise the host
  string that \<^verbatim>\<open>viiper_client_create\<close> reads from the array, together with the port
  \<^verbatim>\<open>(uint16_t)atoi(colon + 1)\<close>, the low 16 bits of the \<^verbatim>\<open>int\<close>.
\<close>

definition main_address :: "'w env \<Rightarrow> string list \<Rightarrow> (string \<times> u16) option option" where
  "main_address env argv =
     (let host0 = map (stack_cells env) [0..<256] in
      if length argv \<le> 1 then
        do {
          host1 \<leftarrow> snprintf_s host0 256 ''127.0.0.1'';
          host \<leftarrow> c_string host1;
          Some (Some (host, 3242))
        }
      else if length argv = 2 then
        (let addr = argv ! 1 in
         case strrchr addr CHR '':'' of
           None \<Rightarrow> Some None
         | Some colon \<Rightarrow>
             do {
               host1 \<leftarrow> main_host env addr colon;
               host \<leftarrow> c_string host1;
               Some (Some (host, ucast (atoi env (drop (Suc colon) addr))))
             })
      else Some None)"

subsection \<open>Client, bus and device\<close>

text \<open>
  How a run of \<^verbatim>\<open>main\<close> ends: it returns a status, it is still in its loop when the
  fuel is used up, or it has reached undefined behaviour.
\<close>

datatype outcome = Returned int | Running | Undefined

text \<open>
  What \<^verbatim>\<open>main\<close> does between the argument handling and its loop, in both programs:
  create the client, pick a bus, create and connect the device of the given type.
  The result is how the run ended, or the bus and the device handle to go on with.
  A library that reports success and leaves the handle null makes the following
  calls undefined.
\<close>

definition main_setup ::
  "'w env \<Rightarrow> string \<Rightarrow> string \<Rightarrow> u16 \<Rightarrow> 'w \<Rightarrow> (outcome + u32 \<times> nat) \<times> 'w st" where
  "main_setup env deviceType host port w =
     (case client_create env host port (w, []) of
        (rc0, s0) \<Rightarrow>
          if rc0 \<noteq> VIIPER_OK then
            (Inl (Returned 1), emit (Fprintf_stderr ''client_create failed\<newline>'' []) s0)
          else
            (case choose_or_create_bus env s0 of
               (busId, s1) \<Rightarrow>
                 if busId = 0 then (Inl (Returned 1), client_free env s1)
                 else
                   (case add_device_and_connect env busId deviceType s1 of
                      ((rc, addResp, dev), s2) \<Rightarrow>
                        if rc \<noteq> VIIPER_OK then
                          (Inl (Returned 1),
                           client_free env
                             (emit (Fprintf_stderr ''add_device_and_connect failed: %s\<newline>''
                                      [S (viiper_get_error env (fst s2))]) s2))
                        else
                          (let s3 = emit (Printf
                                  ''Created and connected device %s on bus %u (type: %s)\<newline>''
                                  [S (case DevId addResp of Some i \<Rightarrow> i | None \<Rightarrow> ''(none)''),
                                   U (unat busId),
                                   S (case Type addResp of Some t \<Rightarrow> t | None \<Rightarrow> ''unknown'')])
                                  s2
                           in case dev of
                                None \<Rightarrow> (Inl Undefined, s3)
                              | Some d \<Rightarrow> (Inr (busId, d), s3)))))"

section \<open>The keyboard program: \<^verbatim>\<open>main\<close>\<close>

text \<open>
  The loop \<^verbatim>\<open>for (;;)\<close> of the keyboard program never ends; \<open>fuel\<close> bounds the
  iterations that are run.
\<close>

fun keyboard_loop ::
  "'w env \<Rightarrow> viiper_keyboard_h \<Rightarrow> nat \<Rightarrow> nat \<Rightarrow> 'w st \<Rightarrow> 'w st option" where
  "keyboard_loop env h 0 dev s = Some s"
| "keyboard_loop env h (Suc fuel) dev s =
     do {
       s1 \<leftarrow> type_string_hello env h dev s;
       s2 \<leftarrow> press_and_release env dev 0 (VIIPER_KEYBOARD_KEY_ENTER h) (sleep_ms 100 s1);
       keyboard_loop env h fuel dev
         (sleep_ms 5000
            (emit (Printf ([CHR 0xE2, CHR 0x86, CHR 0x92] @ '' Typed: Hello!\<newline>'') []) s2))
     }"

definition keyboard_main ::
  "'w env \<Rightarrow> viiper_keyboard_h \<Rightarrow> nat \<Rightarrow> string list \<Rightarrow> 'w \<Rightarrow> outcome \<times> 'w st" where
  "keyboard_main env h fuel argv w =
     (case main_address env argv of
        None \<Rightarrow> (Undefined, (w, []))
      | Some None \<Rightarrow>
          (Returned 1, (w, [Fprintf_stderr ''Usage: virtual_keyboard [host:port]\<newline>'' []]))
      | Some (Some (host, port)) \<Rightarrow>
          (case main_setup env ''keyboard'' host port w of
             (Inl out, s) \<Rightarrow> (out, s)
           | (Inr (busId, dev), s) \<Rightarrow>
               (let s1 = emit (Printf ''Every 5s: type 'Hello!' + Enter. Press Ctrl+C to stop.\<newline>'' [])
                           (device_on_output env dev s)
                in case keyboard_loop env h fuel dev s1 of
                     None \<Rightarrow> (Undefined, s1)
                   | Some s2 \<Rightarrow> (Running, s2))))"

section \<open>The game pad program\<close>

text \<open>
  Modelled from the spec: \<^verbatim>\<open>viiper_xbox360_output_t\<close> of the missing header
  \<^verbatim>\<open>viiper_xbox360.h\<close>: the rumble output is a fixed structure of two fields, the
  left intensity, then the right intensity. Each field is one byte (the program
  guards the read with a size of 2 and prints both with \<^verbatim>\<open>%u\<close>).
\<close>

record viiper_xbox360_output_t =
  left :: u8
  right :: u8

text \<open>The cast of the delivered bytes to the structure, and the reads it stands for.\<close>

definition as_output :: "u8 list \<Rightarrow> viiper_xbox360_output_t option" where
  "as_output output =
     do {
       l \<leftarrow> load output 0;
       r \<leftarrow> load output 1;
       Some \<lparr>left = l, right = r\<rparr>
     }"

definition on_rumble :: "u8 list \<Rightarrow> nat \<Rightarrow> event list option" where
  "on_rumble output output_size =
     (if output_size \<ge> 2 then
        do {
          out \<leftarrow> as_output output;
          Some [Printf ([CHR 0xE2, CHR 0x86, CHR 0x90] @ '' Rumble: Left=%u, Right=%u\<newline>'')
                  [U (unat (left out)), U (unat (right out))]]
        }
      else Some [])"

text \<open>
  The input report of the pad and what the program uses of \<^verbatim>\<open>viiper_xbox360.h\<close>. The
  header is missing: the button constants and the object representation of the
  structure (the \<^verbatim>\<open>sizeof(in)\<close> bytes that are sent) are a parameter.
\<close>

record viiper_xbox360_input_t =
  buttons :: u32
  lt :: u8
  rt :: u8
  lx :: "16 word"
  ly :: "16 word"
  rx :: "16 word"
  ry :: "16 word"

record viiper_xbox360_h =
  VIIPER_XBOX360_BUTTON_A :: u32
  VIIPER_XBOX360_BUTTON_B :: u32
  VIIPER_XBOX360_BUTTON_X :: u32
  VIIPER_XBOX360_BUTTON_Y :: u32
  object_bytes :: "viiper_xbox360_input_t \<Rightarrow> u8 list"

text \<open>
  The report of one frame. \<^verbatim>\<open>(int16_t)(20000.0 * 0.7071)\<close> is 14141: the product is
  just below 14142 in double precision and the conversion truncates.
\<close>

definition frame_input :: "viiper_xbox360_h \<Rightarrow> u64 \<Rightarrow> viiper_xbox360_input_t" where
  "frame_input h frame =
     \<lparr>buttons =
        (let k = (frame div 60) mod 4 in
         if k = 0 then VIIPER_XBOX360_BUTTON_A h
         else if k = 1 then VIIPER_XBOX360_BUTTON_B h
         else if k = 2 then VIIPER_XBOX360_BUTTON_X h
         else VIIPER_XBOX360_BUTTON_Y h),
      lt = ucast ((frame * 2) mod 256),
      rt = ucast ((frame * 3) mod 256),
      lx = 14141, ly = 14141, rx = 0, ry = 0\<rparr>"

text \<open>
  The loop of the pad program ends only when a send fails. \<open>fuel\<close> bounds the
  iterations; the result says whether the loop was left (\<open>True\<close>) or is still
  running when the fuel is used up. \<open>frame\<close> is the counter before \<^verbatim>\<open>++frame\<close>.
\<close>

fun x360_loop ::
  "'w env \<Rightarrow> viiper_xbox360_h \<Rightarrow> nat \<Rightarrow> nat \<Rightarrow> u64 \<Rightarrow> 'w st \<Rightarrow> bool \<times> 'w st" where
  "x360_loop env h 0 dev frame s = (False, s)"
| "x360_loop env h (Suc fuel) dev frame s =
     (let frame1 = frame + 1;
          inp = frame_input h frame1
      in case device_send env dev (object_bytes h inp) s of
           (rc, s1) \<Rightarrow>
             if rc \<noteq> VIIPER_OK then
               (True, emit (Fprintf_stderr ''send error: %s\<newline>''
                              [S (viiper_get_error env (fst s1))]) s1)
             else
               x360_loop env h fuel dev frame1
                 (sleep_ms 16
                    (if frame1 mod 60 = 0 then
                       emit (Printf ([CHR 0xE2, CHR 0x86, CHR 0x92] @
                                     '' Sent input (frame %llu): buttons=0x%04x, LT=%u, RT=%u\<newline>'')
                               [U (unat frame1), U (unat (buttons inp)),
                                U (unat (lt inp)), U (unat (rt inp))]) s1
                     else s1)))"

text \<open>The lines of \<^verbatim>\<open>main\<close> after the loop: close the device, try to remove the bus, free the client.\<close>

definition x360_teardown :: "'w env \<Rightarrow> nat \<Rightarrow> u32 \<Rightarrow> 'w st \<Rightarrow> outcome \<times> 'w st" where
  "x360_teardown env dev busId s =
     (case bus_remove env busId (device_close env dev s) of
        (rc, s1) \<Rightarrow>
          (Returned 0,
           client_free env
             (if rc \<noteq> VIIPER_OK then
                emit (Fprintf_stderr ''BusRemove failed (continuing): %s\<newline>''
                        [S (viiper_get_error env (fst s1))]) s1
              else s1)))"

definition x360_main ::
  "'w env \<Rightarrow> viiper_xbox360_h \<Rightarrow> nat \<Rightarrow> string list \<Rightarrow> 'w \<Rightarrow> outcome \<times> 'w st" where
  "x360_main env h fuel argv w =
     (case main_address env argv of
        None \<Rightarrow> (Undefined, (w, []))
      | Some None \<Rightarrow>
          (Returned 1, (w, [Fprintf_stderr ''Usage: virtual_x360_pad [host:port]\<newline>'' []]))
      | Some (Some (host, port)) \<Rightarrow>
          (case main_setup env ''xbox360'' host port w of
             (Inl out, s) \<Rightarrow> (out, s)
           | (Inr (busId, dev), s) \<Rightarrow>
               (case x360_loop env h fuel dev 0
                       (emit (Printf ''Connected to device stream\<newline>'' [])
                          (device_on_output env dev s)) of
                  (False, s1) \<Rightarrow> (Running, s1)
                | (True, s1) \<Rightarrow> x360_teardown env dev busId s1)))"

section \<open>The client library and the hub, from the specification\<close>

text \<open>
  Modelled from the spec: a device as the data model of the specification describes
  it (hub-assigned identifier, owning bus, type tag, live/closed flag). The
  implementation behind \<^verbatim>\<open>viiper.h\<close> and the hub are missing from the sources.
\<close>

record device =
  device_id :: string
  device_bus :: u32
  device_type :: string
  live :: bool

text \<open>
  Modelled from the spec: the state behind one client, the missing implementation
  of \<^verbatim>\<open>viiper.h\<close> together with the hub it talks to: whether the connection is up,
  the hub's buses and devices (a device handle is its index), the last-error slot,
  and the reports sent so far. Three things the specification leaves to the hub are
  parameters: its address, the identifier it gives a new bus or device, and
  \<open>faults\<close>, the failure (if any) that each coming management request meets on
  its way (protocol, timeout, transport or a refusal by the hub).
\<close>

record hub =
  address :: "string \<times> u16"
  link_up :: bool
  faults :: "rpc_error option list"
  buses :: "u32 list"
  devices :: "device list"
  last_error :: string
  sent :: "(nat \<times> u8 list) list"
  bus_alloc :: "u32 list \<Rightarrow> u32"
  device_name :: "nat \<Rightarrow> string"

text \<open>Modelled from the spec: the human-readable text kept for a failure (the error-retrieval interface).\<close>

fun error_text :: "viiper_error_t \<Rightarrow> string" where
  "error_text (RpcError (Remote message)) = message"
| "error_text (RpcError Protocol) = ''malformed response''"
| "error_text (RpcError Timeout) = ''timeout''"
| "error_text (RpcError Transport) = ''transport failure''"
| "error_text ConnectionError = ''cannot connect''"
| "error_text (DeviceError Closed) = ''device closed''"
| "error_text (DeviceError DeviceTransport) = ''transport failure''"
| "error_text VIIPER_OK = []"

text \<open>
  Modelled from the spec: a failing operation overwrites the last-error slot
  (section 3, "Error state").
\<close>

definition fail :: "viiper_error_t \<Rightarrow> hub \<Rightarrow> hub" where
  "fail e w = w\<lparr>last_error := error_text e\<rparr>"

text \<open>
  Modelled from the spec: the RPC engine's \<^verbatim>\<open>call\<close> (section 4.2), as far as its
  outcome goes: a transport failure when the connection is down, else the next
  scripted fault, else the request reaches the hub.
\<close>

definition rpc :: "hub \<Rightarrow> rpc_error option \<times> hub" where
  "rpc w =
     (if \<not> link_up w then (Some Transport, w)
      else case faults w of
             [] \<Rightarrow> (None, w)
           | f # fs \<Rightarrow> (f, w\<lparr>faults := fs\<rparr>))"

text \<open>Modelled from the spec: \<^verbatim>\<open>connect(host, port)\<close> of the transport (section 4.1).\<close>

definition hub_client_create :: "string \<Rightarrow> u16 \<Rightarrow> hub \<Rightarrow> viiper_error_t \<times> hub" where
  "hub_client_create host port w =
     (if (host, port) = address w then (VIIPER_OK, w\<lparr>link_up := True\<rparr>)
      else (ConnectionError, fail ConnectionError w))"

text \<open>
  Modelled from the spec: destroying the client closes all open devices, then the
  connection (section 3, "Client").
\<close>

definition hub_client_free :: "hub \<Rightarrow> hub" where
  "hub_client_free w =
     w\<lparr>devices := map (\<lambda>d. d\<lparr>live := False\<rparr>) (devices w), link_up := False\<rparr>"

definition hub_get_error :: "hub \<Rightarrow> string" where
  "hub_get_error w = last_error w"

text \<open>Modelled from the spec: \<^verbatim>\<open>list_buses\<close> and \<^verbatim>\<open>create_bus\<close> (section 4.3).\<close>

definition hub_bus_list :: "hub \<Rightarrow> (viiper_error_t \<times> u32 list) \<times> hub" where
  "hub_bus_list w =
     (case rpc w of
        (Some e, w1) \<Rightarrow> ((RpcError e, []), fail (RpcError e) w1)
      | (None, w1) \<Rightarrow> ((VIIPER_OK, buses w1), w1))"

definition hub_bus_create :: "hub \<Rightarrow> (viiper_error_t \<times> u32) \<times> hub" where
  "hub_bus_create w =
     (case rpc w of
        (Some e, w1) \<Rightarrow> ((RpcError e, 0), fail (RpcError e) w1)
      | (None, w1) \<Rightarrow>
          (let b = bus_alloc w1 (buses w1)
           in ((VIIPER_OK, b), w1\<lparr>buses := buses w1 @ [b]\<rparr>)))"

text \<open>
  Modelled from the spec: \<^verbatim>\<open>remove_bus(id)\<close> (section 4.3 and testable property 2):
  it fails with a remote error, carrying the hub's message, if the bus still has
  devices attached, and the bus remains listed; a bus without devices is removed.
\<close>

definition hub_bus_remove :: "u32 \<Rightarrow> hub \<Rightarrow> viiper_error_t \<times> hub" where
  "hub_bus_remove b w =
     (case rpc w of
        (Some e, w1) \<Rightarrow> (RpcError e, fail (RpcError e) w1)
      | (None, w1) \<Rightarrow>
          if list_ex (\<lambda>d. device_bus d = b) (devices w1) then
            (RpcError (Remote ''bus not empty''), fail (RpcError (Remote ''bus not empty'')) w1)
          else if b \<notin> set (buses w1) then
            (RpcError (Remote ''unknown bus''), fail (RpcError (Remote ''unknown bus'')) w1)
          else (VIIPER_OK, w1\<lparr>buses := removeAll b (buses w1)\<rparr>))"

text \<open>
  Modelled from the spec: \<^verbatim>\<open>create_device\<close> (section 4.4) registers a device of the
  given class on the bus; it is not connected yet. The result carries the device
  information and the index of the new device.
\<close>

definition hub_create_device ::
  "u32 \<Rightarrow> string \<Rightarrow> hub \<Rightarrow> (viiper_error_t + viiper_device_info_t \<times> nat) \<times> hub" where
  "hub_create_device b type_tag w =
     (case rpc w of
        (Some e, w1) \<Rightarrow> (Inl (RpcError e), fail (RpcError e) w1)
      | (None, w1) \<Rightarrow>
          if b \<notin> set (buses w1) then
            (Inl (RpcError (Remote ''unknown bus'')), fail (RpcError (Remote ''unknown bus'')) w1)
          else
            (let n = length (devices w1);
                 d = \<lparr>device_id = device_name w1 n, device_bus = b,
                      device_type = type_tag, live = False\<rparr>
             in (Inr (\<lparr>DevId = Some (device_id d), Type = Some type_tag\<rparr>, n),
                 w1\<lparr>devices := devices w1 @ [d]\<rparr>)))"

text \<open>
  Modelled from the spec: \<^verbatim>\<open>connect_device\<close> (section 4.4) opens the streaming
  channels of a created device: from then on the device is live.
\<close>

definition hub_connect_device :: "nat \<Rightarrow> hub \<Rightarrow> viiper_error_t \<times> hub" where
  "hub_connect_device n w =
     (case rpc w of
        (Some e, w1) \<Rightarrow> (RpcError e, fail (RpcError e) w1)
      | (None, w1) \<Rightarrow>
          if n < length (devices w1) then
            (VIIPER_OK, w1\<lparr>devices := (devices w1)[n := (devices w1 ! n)\<lparr>live := True\<rparr>]\<rparr>)
          else
            (RpcError (Remote ''unknown device''), fail (RpcError (Remote ''unknown device'')) w1))"

text \<open>
  Modelled from the spec: \<^verbatim>\<open>create_and_connect\<close> (section 4.4), the composite of the
  two steps. The caller gets a handle only when both succeed. When the second step
  fails, the created device may stay on the hub (the leak the specification
  accepts), but no handle to it is returned.
\<close>

definition hub_add_device_and_connect ::
  "u32 \<Rightarrow> string \<Rightarrow> hub \<Rightarrow> (viiper_error_t \<times> viiper_device_info_t \<times> nat option) \<times> hub" where
  "hub_add_device_and_connect b type_tag w =
     (case hub_create_device b type_tag w of
        (Inl e, w1) \<Rightarrow> ((e, \<lparr>DevId = None, Type = None\<rparr>, None), w1)
      | (Inr (info, n), w1) \<Rightarrow>
          (case hub_connect_device n w1 of
             (VIIPER_OK, w2) \<Rightarrow> ((VIIPER_OK, info, Some n), w2)
           | (e, w2) \<Rightarrow> ((e, \<lparr>DevId = None, Type = None\<rparr>, None), w2)))"

text \<open>
  Modelled from the spec: \<^verbatim>\<open>send(handle, bytes)\<close> (section 4.4) fails with
  \<open>DeviceError Closed\<close> if the device was closed (or never connected), with a
  transport error on connection failure, and otherwise hands the report over.
\<close>

definition hub_device_send :: "nat \<Rightarrow> u8 list \<Rightarrow> hub \<Rightarrow> viiper_error_t \<times> hub" where
  "hub_device_send n bytes w =
     (if \<not> (n < length (devices w) \<and> live (devices w ! n)) then
        (DeviceError Closed, fail (DeviceError Closed) w)
      else if \<not> link_up w then
        (DeviceError DeviceTransport, fail (DeviceError DeviceTransport) w)
      else (VIIPER_OK, w\<lparr>sent := sent w @ [(n, bytes)]\<rparr>))"

text \<open>Modelled from the spec: \<^verbatim>\<open>close(handle)\<close> (section 4.4), idempotent.\<close>

definition hub_device_close :: "nat \<Rightarrow> hub \<Rightarrow> hub" where
  "hub_device_close n w =
     (if n < length (devices w)
      then w\<lparr>devices := (devices w)[n := (devices w ! n)\<lparr>live := False\<rparr>]\<rparr>
      else w)"

text \<open>
  Modelled from the spec: the library as one implementation of the interface the
  programs are linked against. Registering a callback changes nothing that the
  programs observe; allocation succeeds and memory starts zeroed. For a number
  that does not fit \<^verbatim>\<open>int\<close>, \<^verbatim>\<open>atoi\<close> is the one of a C library with 64-bit
  \<^verbatim>\<open>long\<close> that converts with \<^verbatim>\<open>strtol\<close>: the number is cut to the range of
  \<^verbatim>\<open>long\<close> and its low 32 bits are kept.
\<close>

definition hub_env :: "hub env" where
  "hub_env =
     \<lparr>viiper_client_create = hub_client_create,
      viiper_client_free = hub_client_free,
      viiper_get_error = hub_get_error,
      viiper_bus_list = hub_bus_list,
      viiper_bus_create = hub_bus_create,
      viiper_bus_remove = hub_bus_remove,
      viiper_add_device_and_connect = hub_add_device_and_connect,
      viiper_device_on_output = (\<lambda>n w. w),
      viiper_device_send = hub_device_send,
      viiper_device_close = hub_device_close,
      heap_cells = (\<lambda>n w. (Some (\<lambda>i. 0), w)),
      stack_cells = (\<lambda>i. CHR 0x00),
      atoi_overflow = (\<lambda>v. word_of_int (max (- (2 ^ 63)) (min (2 ^ 63 - 1) v)))\<rparr>"

text \<open>An example hub at the default address, with no bus yet.\<close>

definition hub0 :: hub where
  "hub0 =
     \<lparr>address = (''127.0.0.1'', 3242), link_up = False, faults = [], buses = [],
      devices = [], last_error = [], sent = [],
      bus_alloc = (\<lambda>bs. 1 + of_nat (length bs)),
      device_name = (\<lambda>n. replicate (Suc n) CHR ''d'')\<rparr>"

text \<open>The example hub, connected, with three buses.\<close>

definition hub1 :: hub where
  "hub1 = hub0\<lparr>link_up := True, buses := [7, 3, 9]\<rparr>"

text \<open>The example hub, not yet connected, where the hub has given a bus the identifier 0.\<close>

definition hub_zero :: hub where
  "hub_zero = hub0\<lparr>buses := [5, 0]\<rparr>"

text \<open>The example hub, connected, with one bus and a pad on it.\<close>

definition hub_pad :: hub where
  "hub_pad =
     hub0\<lparr>link_up := True, buses := [1],
          devices := [\<lparr>device_id = ''d'', device_bus = 1, device_type = ''xbox360'', live = True\<rparr>]\<rparr>"

text \<open>The example hub, connected, without a bus, where the hub gives its first bus the identifier 0.\<close>

definition hub_first_zero :: hub where
  "hub_first_zero = hub0\<lparr>link_up := True, bus_alloc := (\<lambda>bs. 0)\<rparr>"

text \<open>The library of the specification with an allocator that always fails.\<close>

definition no_memory_env :: "hub env" where
  "no_memory_env = hub_env\<lparr>heap_cells := (\<lambda>n w. (None, w))\<rparr>"

text \<open>The constants of the USB HID usage tables, as an example of \<^verbatim>\<open>viiper_keyboard.h\<close>.\<close>

definition hid_keyboard :: viiper_keyboard_h where
  "hid_keyboard =
     \<lparr>VIIPER_KEYBOARD_LED_NUM_LOCK = 0x01,
      VIIPER_KEYBOARD_LED_CAPS_LOCK = 0x02,
      VIIPER_KEYBOARD_LED_SCROLL_LOCK = 0x04,
      VIIPER_KEYBOARD_LED_COMPOSE = 0x08,
      VIIPER_KEYBOARD_LED_KANA = 0x10,
      VIIPER_KEYBOARD_KEY_H = 0x0B,
      VIIPER_KEYBOARD_KEY_E = 0x08,
      VIIPER_KEYBOARD_KEY_L = 0x0F,
      VIIPER_KEYBOARD_KEY_O = 0x12,
      VIIPER_KEYBOARD_KEY1 = 0x1E,
      VIIPER_KEYBOARD_KEY_ENTER = 0x28\<rparr>"

section \<open>Auxiliary facts\<close>

subsection \<open>The scan for the minimum\<close>

lemma Min_insert_pick:
  fixes a b :: "'a::linorder"
  assumes "finite A"
  shows "Min (insert (if a < b then a else b) A) = Min (insert b (insert a A))"
proof (cases "A = {}")
  case True
  then show ?thesis by (auto simp: min_def)
next
  case False
  have "(if a < b then a else b) = min b a" by (auto simp: min_def)
  with assms False show ?thesis by (simp add: min.assoc)
qed

lemma min_loop_Min:
  "i \<le> length Buses \<Longrightarrow> min_loop Buses i b = Min (insert b (set (drop i Buses)))"
proof (induction Buses i b rule: min_loop.induct)
  case (1 Buses i busId)
  show ?case
  proof (cases "i < length Buses")
    case True
    then have d: "drop i Buses = Buses ! i # drop (Suc i) Buses"
      by (simp add: Cons_nth_drop_Suc)
    have "min_loop Buses i busId =
            min_loop Buses (Suc i) (if Buses ! i < busId then Buses ! i else busId)"
      using True by (subst min_loop.simps) simp
    also have "\<dots> =
            Min (insert (if Buses ! i < busId then Buses ! i else busId) (set (drop (Suc i) Buses)))"
      using True by (intro "1.IH") simp_all
    also have "\<dots> = Min (insert busId (set (drop i Buses)))"
      unfolding d by (simp add: Min_insert_pick)
    finally show ?thesis .
  next
    case False
    with "1.prems" show ?thesis by (subst min_loop.simps) simp
  qed
qed

lemma min_loop_list:
  assumes "Buses \<noteq> []"
  shows "min_loop Buses (Suc 0) (Buses ! 0) = Min (set Buses)"
proof -
  obtain b bs where B: "Buses = b # bs" using assms by (cases Buses) auto
  have "min_loop Buses (Suc 0) (Buses ! 0) = Min (insert (Buses ! 0) (set (drop (Suc 0) Buses)))"
    by (rule min_loop_Min) (simp add: B)
  then show ?thesis by (simp add: B)
qed

lemma Min_zero: "(0::u32) \<in> set Buses \<Longrightarrow> Min (set Buses) = 0"
proof -
  assume "(0::u32) \<in> set Buses"
  then have "Min (set Buses) \<le> 0" by (intro Min_le) simp_all
  then show ?thesis by simp
qed

subsection \<open>Keyboard reports\<close>

lemma on_leds_loop_map:
  "i \<le> bytes_read \<Longrightarrow> bytes_read \<le> length led_data \<Longrightarrow>
   on_leds_loop h led_data bytes_read i out =
     Some (out @ map (leds_line h) (drop i (take bytes_read led_data)))"
proof (induction h led_data bytes_read i out rule: on_leds_loop.induct)
  case (1 h led_data bytes_read i out)
  show ?case
  proof (cases "i < bytes_read")
    case True
    with "1.prems" have il: "i < length led_data" by simp
    have d: "drop i (take bytes_read led_data) = led_data ! i # drop (Suc i) (take bytes_read led_data)"
      using True il by (simp add: Cons_nth_drop_Suc [symmetric])
    have "on_leds_loop h led_data bytes_read i out =
        on_leds_loop h led_data bytes_read (Suc i) (out @ [leds_line h (led_data ! i)])"
      using True il by (subst on_leds_loop.simps) (simp add: load_def)
    also have "\<dots> = Some ((out @ [leds_line h (led_data ! i)]) @
        map (leds_line h) (drop (Suc i) (take bytes_read led_data)))"
      using True il "1.prems" by (intro "1.IH") (simp_all add: load_def)
    finally show ?thesis by (simp add: d)
  next
    case False
    with "1.prems" show ?thesis by (subst on_leds_loop.simps) simp
  qed
qed

lemma take2_upd:
  "2 \<le> length xs \<Longrightarrow> take 2 (xs[0 := a, Suc 0 := b]) = [a, b]"
  by (cases xs; cases "tl xs") auto

lemma send_keys_some:
  assumes "unat nkeys \<le> length ks" "heap_cells env (2 + unat nkeys) w = (Some cells, w1)"
  shows "send_keys env dev modifiers (Some ks) nkeys (w, tr) =
           Some (snd (viiper_device_send env dev (modifiers # nkeys # take (unat nkeys) ks) w1),
                 tr @ [Device_send dev (modifiers # nkeys # take (unat nkeys) ks)])"
  using assms
  by (auto simp: send_keys_def malloc_def store_def memcpy_def device_send_def take2_upd Let_def
        split: prod.splits)

lemma two_upd:
  "length xs = 2 \<Longrightarrow> xs[0 := a, Suc 0 := b] = [a, b]"
  by (cases xs; cases "tl xs") auto

lemma send_keys_release:
  assumes "heap_cells env 2 w = (Some cells, w1)"
  shows "send_keys env dev modifiers None 0 (w, tr) =
           Some (snd (viiper_device_send env dev [modifiers, 0] w1),
                 tr @ [Device_send dev [modifiers, 0]])"
  using assms
  by (auto simp: send_keys_def malloc_def store_def device_send_def two_upd Let_def
        split: prod.splits)

lemma send_keys_no_memory:
  assumes "heap_cells env (2 + unat nkeys) w = (None, w1)" "keys \<noteq> None \<or> nkeys = 0"
  shows "send_keys env dev modifiers keys nkeys (w, tr) = Some (w1, tr)"
  using assms by (auto simp: send_keys_def malloc_def Let_def)

lemma send_keys_guard:
  "nkeys \<noteq> 0 \<Longrightarrow> send_keys env dev modifiers None nkeys s = Some s"
  by (simp add: send_keys_def)

lemma send_keys_extends:
  assumes "keys = Some ks \<and> unat nkeys \<le> length ks \<or> keys = None"
  shows "\<exists>s'. send_keys env dev modifiers keys nkeys s = Some s' \<and> (\<exists>es. snd s' = snd s @ es)"
proof -
  obtain w tr where s: "s = (w, tr)" by (cases s)
  obtain r w1 where h: "heap_cells env (2 + unat nkeys) w = (r, w1)"
    by (cases "heap_cells env (2 + unat nkeys) w")
  consider (null) "keys = None" "nkeys \<noteq> 0"
    | (nomem) "keys \<noteq> None \<or> nkeys = 0" "r = None"
    | (release) "keys = None" "nkeys = 0" "r \<noteq> None"
    | (press) "keys = Some ks" "unat nkeys \<le> length ks" "r \<noteq> None"
    using assms by (cases r; cases keys) auto
  then show ?thesis
  proof cases
    case null
    then show ?thesis by (simp add: send_keys_guard)
  next
    case nomem
    with h show ?thesis by (simp add: s send_keys_no_memory)
  next
    case release
    then obtain cells where "heap_cells env 2 w = (Some cells, w1)" using h by auto
    from send_keys_release [OF this] release show ?thesis by (simp add: s)
  next
    case press
    then obtain cells where "heap_cells env (2 + unat nkeys) w = (Some cells, w1)" using h by auto
    from send_keys_some [OF press(2) this] press show ?thesis by (simp add: s)
  qed
qed

lemma press_and_release_extends:
  "\<exists>s'. press_and_release env dev modifiers key s = Some s' \<and> (\<exists>es. snd s' = snd s @ es)"
proof -
  obtain s1 es1 where 1: "send_keys env dev modifiers (Some [key]) 1 s = Some s1" "snd s1 = snd s @ es1"
    using send_keys_extends [of "Some [key]" "[key]" 1 env dev modifiers s] by auto
  obtain s2 es2 where 2: "send_keys env dev 0 None 0 (sleep_ms 100 s1) = Some s2"
      "snd s2 = snd (sleep_ms 100 s1) @ es2"
    using send_keys_extends [of None "[]" 0 env dev 0 "sleep_ms 100 s1"] by auto
  show ?thesis
    using 1 2 by (simp add: press_and_release_def sleep_ms_def emit_def)
qed

lemma press_and_release_first:
  assumes "heap_cells env 3 w = (Some cells, w1)"
  shows "\<exists>s' es. press_and_release env dev modifiers key (w, tr) = Some s' \<and>
           snd s' = tr @ Device_send dev [modifiers, 1, key] # es"
proof -
  let ?s1 = "(snd (viiper_device_send env dev [modifiers, 1, key] w1),
              tr @ [Device_send dev [modifiers, 1, key]])"
  have 1: "send_keys env dev modifiers (Some [key]) 1 (w, tr) = Some ?s1"
    using send_keys_some [of 1 "[key]" env w cells w1 dev modifiers tr] assms by simp
  obtain s2 es2 where 2: "send_keys env dev 0 None 0 (sleep_ms 100 ?s1) = Some s2"
      "snd s2 = snd (sleep_ms 100 ?s1) @ es2"
    using send_keys_extends [of None "[]" 0 env dev 0 "sleep_ms 100 ?s1"] by auto
  show ?thesis
    using 1 2 by (simp add: press_and_release_def sleep_ms_def emit_def)
qed

lemma type_string_hello_first:
  assumes "heap_cells env 3 w = (Some cells, w1)"
  shows "\<exists>s' es. type_string_hello env h dev (w, tr) = Some s' \<and>
           snd s' = tr @ Device_send dev [0x02, 0x01, VIIPER_KEYBOARD_KEY_H h] # es"
proof -
  obtain sa ea where a:
    "press_and_release env dev VIIPER_KEYBOARD_MOD_LEFT_SHIFT (VIIPER_KEYBOARD_KEY_H h) (w, tr) = Some sa"
    "snd sa = tr @ Device_send dev [0x02, 1, VIIPER_KEYBOARD_KEY_H h] # ea"
    using press_and_release_first [OF assms, of dev VIIPER_KEYBOARD_MOD_LEFT_SHIFT "VIIPER_KEYBOARD_KEY_H h" tr]
    by (auto simp: VIIPER_KEYBOARD_MOD_LEFT_SHIFT_def)
  obtain sb eb where b: "press_and_release env dev 0 (VIIPER_KEYBOARD_KEY_E h) sa = Some sb"
    "snd sb = snd sa @ eb"
    using press_and_release_extends [of env dev 0 "VIIPER_KEYBOARD_KEY_E h" sa] by auto
  obtain sc ec where c: "press_and_release env dev 0 (VIIPER_KEYBOARD_KEY_L h) sb = Some sc"
    "snd sc = snd sb @ ec"
    using press_and_release_extends [of env dev 0 "VIIPER_KEYBOARD_KEY_L h" sb] by auto
  obtain sd ed where d: "press_and_release env dev 0 (VIIPER_KEYBOARD_KEY_L h) sc = Some sd"
    "snd sd = snd sc @ ed"
    using press_and_release_extends [of env dev 0 "VIIPER_KEYBOARD_KEY_L h" sc] by auto
  obtain se ee where e: "press_and_release env dev 0 (VIIPER_KEYBOARD_KEY_O h) sd = Some se"
    "snd se = snd sd @ ee"
    using press_and_release_extends [of env dev 0 "VIIPER_KEYBOARD_KEY_O h" sd] by auto
  obtain sf ef where f:
    "press_and_release env dev VIIPER_KEYBOARD_MOD_LEFT_SHIFT (VIIPER_KEYBOARD_KEY1 h) se = Some sf"
    "snd sf = snd se @ ef"
    using press_and_release_extends [of env dev VIIPER_KEYBOARD_MOD_LEFT_SHIFT "VIIPER_KEYBOARD_KEY1 h" se]
    by auto
  have "type_string_hello env h dev (w, tr) = Some sf"
    unfolding type_string_hello_def using a b c d e f by simp
  moreover have "snd sf = tr @ Device_send dev [0x02, 1, VIIPER_KEYBOARD_KEY_H h] # (ea @ eb @ ec @ ed @ ee @ ef)"
    using a b c d e f by simp
  ultimately show ?thesis by blast
qed

subsection \<open>The address argument\<close>

lemma strrchr_None: "strrchr s c = None \<longleftrightarrow> c \<notin> set s"
  by (induction s) (auto split: option.splits)

lemma strrchr_last:
  "c \<notin> set post \<Longrightarrow> strrchr (pre @ c # post) c = Some (length pre)"
proof (induction pre)
  case Nil
  then have "strrchr post c = None" by (simp add: strrchr_None)
  then show ?case by simp
next
  case (Cons x pre)
  then show ?case by simp
qed

lemma main_host_buffer:
  fixes hostpart :: string
  defines "len \<equiv> min (length hostpart) 255"
  shows "main_host env (hostpart @ c # portpart) (length hostpart) =
           Some (take len hostpart @ CHR 0x00 # drop (Suc len) (map (stack_cells env) [0..<256]))"
proof -
  let ?host0 = "map (stack_cells env) [0..<256]"
  have l: "(if 256 \<le> length hostpart then 256 - 1 else length hostpart) = len"
    by (auto simp: len_def)
  have len: "len \<le> length hostpart" "len < 256" by (auto simp: len_def)
  have m: "memcpy ?host0 0 (Some (hostpart @ c # portpart)) len =
      Some (take len hostpart @ drop len ?host0)"
    using len unfolding memcpy_def by (simp del: map_upt_eqI upt_conv_Cons)
  have d: "drop len ?host0 = ?host0 ! len # drop (Suc len) ?host0"
    using len by (intro Cons_nth_drop_Suc [symmetric]) simp
  have s: "store (take len hostpart @ drop len ?host0) len (CHR 0x00) =
      Some (take len hostpart @ CHR 0x00 # drop (Suc len) ?host0)"
    unfolding store_def d using len by (simp add: list_update_append min_absorb2)
  show ?thesis
    unfolding main_host_def Let_def l using m s by simp
qed

lemma c_string_terminated:
  "CHR 0x00 \<notin> set s \<Longrightarrow> c_string (s @ CHR 0x00 # rest) = Some s"
  by (induction s) (auto simp: c_string_def)

lemma main_host_string:
  assumes "CHR 0x00 \<notin> set hostpart"
  shows "\<exists>buf. main_host env (hostpart @ c # portpart) (length hostpart) = Some buf \<and>
           length buf = 256 \<and> buf ! min (length hostpart) 255 = CHR 0x00 \<and>
           take (min (length hostpart) 255) buf = take 255 hostpart \<and>
           c_string buf = Some (take 255 hostpart)"
proof -
  let ?len = "min (length hostpart) 255"
  let ?buf = "take ?len hostpart @ CHR 0x00 # drop (Suc ?len) (map (stack_cells env) [0..<256])"
  have t: "take ?len hostpart = take 255 hostpart" by (simp add: min_def)
  have n: "CHR 0x00 \<notin> set (take ?len hostpart)" using assms by (auto dest: in_set_takeD)
  have "main_host env (hostpart @ c # portpart) (length hostpart) = Some ?buf"
    by (rule main_host_buffer)
  moreover have "length ?buf = 256" by (simp add: min_def)
  moreover have "?buf ! ?len = CHR 0x00" by (simp add: nth_append min_def)
  moreover have "take ?len ?buf = take 255 hostpart" by (simp add: min_def)
  moreover have "c_string ?buf = Some (take 255 hostpart)"
    using c_string_terminated [OF n] by (simp only: t)
  ultimately show ?thesis by blast
qed

lemma snprintf_s_fits:
  assumes "length str < 256"
  shows "snprintf_s (map cells [0..<256]) 256 str =
           Some (str @ CHR 0x00 # drop (Suc (length str)) (map cells [0..<256]))"
  using assms unfolding snprintf_s_def memcpy_def Let_def
  by (simp del: map_upt_eqI upt_conv_Cons)

lemma main_address_default:
  "length argv \<le> 1 \<Longrightarrow> main_address env argv = Some (Some (''127.0.0.1'', 3242))"
proof -
  assume a: "length argv \<le> 1"
  let ?host0 = "map (stack_cells env) [0..<256]"
  have "snprintf_s ?host0 256 ''127.0.0.1'' =
      Some (''127.0.0.1'' @ CHR 0x00 # drop (Suc (length ''127.0.0.1'')) ?host0)"
    by (rule snprintf_s_fits) simp
  moreover have "c_string (''127.0.0.1'' @ CHR 0x00 # drop (Suc (length ''127.0.0.1'')) ?host0) =
      Some ''127.0.0.1''"
    by (rule c_string_terminated) simp
  ultimately show ?thesis using a unfolding main_address_def Let_def by simp
qed

lemma main_address_no_colon:
  "length argv = 2 \<Longrightarrow> CHR '':'' \<notin> set (argv ! 1) \<Longrightarrow> main_address env argv = Some None"
  by (simp add: main_address_def strrchr_None [symmetric])

lemma main_address_many:
  "length argv > 2 \<Longrightarrow> main_address env argv = Some None"
  by (simp add: main_address_def)

lemma main_address_host_port:
  assumes "argv = [prog, hostpart @ CHR '':'' # portpart]"
    and "CHR '':'' \<notin> set portpart" and "CHR 0x00 \<notin> set hostpart"
  shows "main_address env argv = Some (Some (take 255 hostpart, ucast (atoi env portpart)))"
proof -
  obtain buf where b: "main_host env (hostpart @ CHR '':'' # portpart) (length hostpart) = Some buf"
      "c_string buf = Some (take 255 hostpart)"
    using main_host_string [OF assms(3)] by blast
  have "strrchr (hostpart @ CHR '':'' # portpart) CHR '':'' = Some (length hostpart)"
    using assms(2) by (rule strrchr_last)
  then show ?thesis
    using b by (simp add: main_address_def assms(1))
qed




text \<open>
  Some ports: digits followed by other text give the digits; 70000 does not fit 16
  bits; 99999999999 does not fit \<^verbatim>\<open>int\<close>, and with the library of the example its
  low bits give port 59391.
\<close>

lemma atoi_1: "atoi env ''1'' = 1"
  by (simp add: atoi_def isspace_def isdigit_def Let_def)

lemma atoi_8080: "atoi env ''8080'' = 8080"
  by (simp add: atoi_def isspace_def isdigit_def Let_def)

lemma atoi_70000: "atoi env ''70000'' = 70000"
  by (simp add: atoi_def isspace_def isdigit_def Let_def)

lemma atoi_12abc: "atoi env ''12abc'' = 12"
  by (simp add: atoi_def isspace_def isdigit_def Let_def)

lemma port_70000: "(ucast (70000 :: 32 word) :: u16) = 4464"
  by simp

lemma port_99999999999: "(ucast (atoi hub_env ''99999999999'') :: u16) = 59391"
  by (simp add: atoi_def isspace_def isdigit_def Let_def hub_env_def)

lemma strrchr_Some:
  "strrchr s c = Some i \<Longrightarrow> \<exists>post. s = take i s @ c # post \<and> c \<notin> set post"
proof (induction s arbitrary: i)
  case Nil
  then show ?case by simp
next
  case (Cons x xs)
  show ?case
  proof (cases "strrchr xs c")
    case None
    with Cons.prems have "x = c" "i = 0" by (auto split: if_splits)
    moreover from None have "c \<notin> set xs" by (simp add: strrchr_None)
    ultimately show ?thesis by simp
  next
    case (Some j)
    with Cons.prems have i: "i = Suc j" by simp
    from Cons.IH [OF Some] obtain post where "xs = take j xs @ c # post" "c \<notin> set post"
      by blast
    then have "x # xs = take i (x # xs) @ c # post \<and> c \<notin> set post"
      by (simp add: i)
    then show ?thesis by blast
  qed
qed

lemma main_address_defined: "main_address env argv \<noteq> None"
proof -
  consider (none) "length argv \<le> 1" | (one) "length argv = 2" | (many) "length argv > 2"
    by linarith
  then show ?thesis
  proof cases
    case none
    then show ?thesis by (simp add: main_address_default)
  next
    case many
    then show ?thesis by (simp add: main_address_many)
  next
    case one
    show ?thesis
    proof (cases "strrchr (argv ! 1) CHR '':''")
      case None
      with one show ?thesis by (simp add: main_address_def)
    next
      case (Some colon)
      from strrchr_Some [OF Some] obtain post where
        a: "argv ! 1 = take colon (argv ! 1) @ CHR '':'' # post" by blast
      have "colon < length (argv ! 1)"
      proof (rule ccontr)
        assume "\<not> colon < length (argv ! 1)"
        then have "take colon (argv ! 1) = argv ! 1" by simp
        with a show False by (metis append_self_conv list.distinct(1))
      qed
      then have l: "length (take colon (argv ! 1)) = colon" by simp
      let ?len = "min (length (take colon (argv ! 1))) 255"
      let ?buf = "take ?len (take colon (argv ! 1)) @ CHR 0x00 #
          drop (Suc ?len) (map (stack_cells env) [0..<256])"
      have "main_host env (take colon (argv ! 1) @ CHR '':'' # post)
          (length (take colon (argv ! 1))) = Some ?buf"
        by (rule main_host_buffer)
      then have h: "main_host env (argv ! 1) colon = Some ?buf"
        using a l by simp
      have "CHR 0x00 \<in> set ?buf" by simp
      then have "c_string ?buf \<noteq> None" by (simp add: c_string_def)
      with one Some h show ?thesis by (auto simp: main_address_def)
    qed
  qed
qed

subsection \<open>The trace of \<^verbatim>\<open>main\<close>\<close>

lemma choose_or_create_bus_extends:
  "\<exists>es. snd (snd (choose_or_create_bus env s)) = snd s @ es"
  by (auto simp: choose_or_create_bus_def emit_def Let_def split: prod.splits)

lemma main_setup_first:
  "\<exists>r w' es. main_setup env deviceType host port w = (r, (w', Client_create host port # es))"
proof -
  obtain rc0 w0 where c: "viiper_client_create env host port w = (rc0, w0)"
    by (cases "viiper_client_create env host port w")
  let ?s0 = "(w0, [Client_create host port])"
  obtain busId w1 t1 where ch: "choose_or_create_bus env ?s0 = (busId, (w1, t1))"
    by (cases "choose_or_create_bus env ?s0") auto
  obtain es1 where t1: "t1 = Client_create host port # es1"
    using choose_or_create_bus_extends [of env ?s0] ch by auto
  obtain rc addResp dev w2 where a:
    "viiper_add_device_and_connect env busId deviceType w1 = ((rc, addResp, dev), w2)"
    by (cases "viiper_add_device_and_connect env busId deviceType w1") auto
  show ?thesis
    using c ch t1 a
    by (auto simp: main_setup_def client_create_def client_free_def add_device_and_connect_def
        emit_def Let_def split: option.splits)
qed

lemma type_string_hello_extends:
  "\<exists>s'. type_string_hello env h dev s = Some s' \<and> (\<exists>es. snd s' = snd s @ es)"
proof -
  obtain sa ea where a:
    "press_and_release env dev VIIPER_KEYBOARD_MOD_LEFT_SHIFT (VIIPER_KEYBOARD_KEY_H h) s = Some sa"
    "snd sa = snd s @ ea"
    using press_and_release_extends [of env dev VIIPER_KEYBOARD_MOD_LEFT_SHIFT "VIIPER_KEYBOARD_KEY_H h" s]
    by auto
  obtain sb eb where b: "press_and_release env dev 0 (VIIPER_KEYBOARD_KEY_E h) sa = Some sb"
    "snd sb = snd sa @ eb"
    using press_and_release_extends [of env dev 0 "VIIPER_KEYBOARD_KEY_E h" sa] by auto
  obtain sc ec where c: "press_and_release env dev 0 (VIIPER_KEYBOARD_KEY_L h) sb = Some sc"
    "snd sc = snd sb @ ec"
    using press_and_release_extends [of env dev 0 "VIIPER_KEYBOARD_KEY_L h" sb] by auto
  obtain sd ed where d: "press_and_release env dev 0 (VIIPER_KEYBOARD_KEY_L h) sc = Some sd"
    "snd sd = snd sc @ ed"
    using press_and_release_extends [of env dev 0 "VIIPER_KEYBOARD_KEY_L h" sc] by auto
  obtain se ee where e: "press_and_release env dev 0 (VIIPER_KEYBOARD_KEY_O h) sd = Some se"
    "snd se = snd sd @ ee"
    using press_and_release_extends [of env dev 0 "VIIPER_KEYBOARD_KEY_O h" sd] by auto
  obtain sf ef where f:
    "press_and_release env dev VIIPER_KEYBOARD_MOD_LEFT_SHIFT (VIIPER_KEYBOARD_KEY1 h) se = Some sf"
    "snd sf = snd se @ ef"
    using press_and_release_extends [of env dev VIIPER_KEYBOARD_MOD_LEFT_SHIFT "VIIPER_KEYBOARD_KEY1 h" se]
    by auto
  have "type_string_hello env h dev s = Some sf"
    unfolding type_string_hello_def using a b c d e f by simp
  moreover have "snd sf = snd s @ (ea @ eb @ ec @ ed @ ee @ ef)"
    using a b c d e f by simp
  ultimately show ?thesis by blast
qed

lemma keyboard_loop_extends:
  "\<exists>s'. keyboard_loop env h fuel dev s = Some s' \<and> (\<exists>es. snd s' = snd s @ es)"
proof (induction fuel arbitrary: s)
  case 0
  then show ?case by simp
next
  case (Suc fuel)
  obtain s1 e1 where 1: "type_string_hello env h dev s = Some s1" "snd s1 = snd s @ e1"
    using type_string_hello_extends [of env h dev s] by auto
  obtain s2 e2 where 2:
    "press_and_release env dev 0 (VIIPER_KEYBOARD_KEY_ENTER h) (sleep_ms 100 s1) = Some s2"
    "snd s2 = snd (sleep_ms 100 s1) @ e2"
    using press_and_release_extends [of env dev 0 "VIIPER_KEYBOARD_KEY_ENTER h" "sleep_ms 100 s1"]
    by auto
  let ?s3 = "sleep_ms 5000
      (emit (Printf ([CHR 0xE2, CHR 0x86, CHR 0x92] @ '' Typed: Hello!\<newline>'') []) s2)"
  obtain s4 e4 where 4: "keyboard_loop env h fuel dev ?s3 = Some s4" "snd s4 = snd ?s3 @ e4"
    using Suc.IH [of ?s3] by auto
  have "keyboard_loop env h (Suc fuel) dev s = Some s4" using 1 2 4 by simp
  moreover have "\<exists>es. snd s4 = snd s @ es"
    using 1 2 4 by (simp add: sleep_ms_def emit_def)
  ultimately show ?case by blast
qed

lemma x360_loop_extends:
  "\<exists>es. snd (snd (x360_loop env h fuel dev frame s)) = snd s @ es"
proof (induction fuel arbitrary: frame s)
  case 0
  then show ?case by simp
next
  case (Suc fuel)
  let ?inp = "frame_input h (frame + 1)"
  obtain rc w1 where d: "viiper_device_send env dev (object_bytes h ?inp) (fst s) = (rc, w1)"
    by (cases "viiper_device_send env dev (object_bytes h ?inp) (fst s)")
  show ?case
  proof (cases "rc = VIIPER_OK")
    case False
    with d show ?thesis by (simp add: Let_def device_send_def emit_def)
  next
    case True
    let ?s1 = "(w1, snd s @ [Device_send dev (object_bytes h ?inp)])"
    let ?s2 = "sleep_ms 16
        (if (frame + 1) mod 60 = 0 then
           emit (Printf ([CHR 0xE2, CHR 0x86, CHR 0x92] @
                         '' Sent input (frame %llu): buttons=0x%04x, LT=%u, RT=%u\<newline>'')
                   [U (unat (frame + 1)), U (unat (buttons ?inp)),
                    U (unat (lt ?inp)), U (unat (rt ?inp))]) ?s1
         else ?s1)"
    obtain es where "snd (snd (x360_loop env h fuel dev (frame + 1) ?s2)) = snd ?s2 @ es"
      using Suc.IH [of "frame + 1" ?s2] by auto
    moreover have "x360_loop env h (Suc fuel) dev frame s = x360_loop env h fuel dev (frame + 1) ?s2"
      using d True by (simp add: Let_def device_send_def)
    ultimately show ?thesis by (auto simp: sleep_ms_def emit_def)
  qed
qed

lemma x360_teardown_extends:
  "\<exists>es. snd (snd (x360_teardown env dev busId s)) = snd s @ es"
  by (auto simp: x360_teardown_def bus_remove_def device_close_def client_free_def emit_def
      split: prod.splits)

lemma keyboard_main_first:
  assumes "main_address env argv = Some (Some (host, port))"
  shows "\<exists>out w' es. keyboard_main env h fuel argv w = (out, (w', Client_create host port # es))"
proof -
  obtain r w1 es1 where m: "main_setup env ''keyboard'' host port w = (r, (w1, Client_create host port # es1))"
    using main_setup_first [of env "''keyboard''" host port w] by auto
  show ?thesis
  proof (cases r)
    case (Inl out)
    with m assms show ?thesis by (simp add: keyboard_main_def)
  next
    case (Inr bd)
    obtain busId dev where bd: "bd = (busId, dev)" by (cases bd)
    let ?s1 = "emit (Printf ''Every 5s: type 'Hello!' + Enter. Press Ctrl+C to stop.\<newline>'' [])
        (device_on_output env dev (w1, Client_create host port # es1))"
    obtain s2 es2 where l: "keyboard_loop env h fuel dev ?s1 = Some s2" "snd s2 = snd ?s1 @ es2"
      using keyboard_loop_extends [of env h fuel dev ?s1] by auto
    have "keyboard_main env h fuel argv w = (Running, s2)"
      using m assms Inr bd l by (simp add: keyboard_main_def Let_def)
    moreover have "\<exists>es. snd s2 = Client_create host port # es"
      using l by (simp add: emit_def device_on_output_def)
    ultimately show ?thesis by (cases s2) auto
  qed
qed

lemma x360_main_first:
  assumes "main_address env argv = Some (Some (host, port))"
  shows "\<exists>out w' es. x360_main env h fuel argv w = (out, (w', Client_create host port # es))"
proof -
  obtain r w1 es1 where m: "main_setup env ''xbox360'' host port w = (r, (w1, Client_create host port # es1))"
    using main_setup_first [of env "''xbox360''" host port w] by auto
  show ?thesis
  proof (cases r)
    case (Inl out)
    with m assms show ?thesis by (simp add: x360_main_def)
  next
    case (Inr bd)
    obtain busId dev where bd: "bd = (busId, dev)" by (cases bd)
    let ?s1 = "emit (Printf ''Connected to device stream\<newline>'' [])
        (device_on_output env dev (w1, Client_create host port # es1))"
    obtain left w2 t2 where l: "x360_loop env h fuel dev 0 ?s1 = (left, (w2, t2))"
      by (cases "x360_loop env h fuel dev 0 ?s1") auto
    obtain es2 where t2: "t2 = snd ?s1 @ es2"
      using x360_loop_extends [of env h fuel dev 0 ?s1] l by auto
    obtain out w3 t3 where t: "x360_teardown env dev busId (w2, t2) = (out, (w3, t3))"
      by (cases "x360_teardown env dev busId (w2, t2)") auto
    obtain es3 where t3: "t3 = t2 @ es3"
      using x360_teardown_extends [of env dev busId "(w2, t2)"] t by auto
    show ?thesis
      using m assms Inr bd l t2 t t3
      by (cases left) (simp_all add: x360_main_def emit_def device_on_output_def)
  qed
qed

subsection \<open>The library of the specification\<close>

lemma hub_env_sel:
  "viiper_client_create hub_env = hub_client_create"
  "viiper_client_free hub_env = hub_client_free"
  "viiper_get_error hub_env = hub_get_error"
  "viiper_bus_list hub_env = hub_bus_list"
  "viiper_bus_create hub_env = hub_bus_create"
  "viiper_bus_remove hub_env = hub_bus_remove"
  "viiper_add_device_and_connect hub_env = hub_add_device_and_connect"
  "viiper_device_on_output hub_env = (\<lambda>n w. w)"
  "viiper_device_send hub_env = hub_device_send"
  "viiper_device_close hub_env = hub_device_close"
  by (simp_all add: hub_env_def)

lemma rpc_fields:
  "link_up (snd (rpc w)) = link_up w" "buses (snd (rpc w)) = buses w"
  "devices (snd (rpc w)) = devices w" "sent (snd (rpc w)) = sent w"
  "last_error (snd (rpc w)) = last_error w"
  by (auto simp: rpc_def split: list.splits)

lemma hub_create_device_cases:
  assumes "hub_create_device b type_tag w = (r, w1)"
  shows "(\<exists>e. r = Inl e \<and> e \<noteq> VIIPER_OK \<and> devices w1 = devices w) \<or>
         (\<exists>info. r = Inr (info, length (devices w)) \<and>
            devices w1 = devices w @
              [\<lparr>device_id = device_name (snd (rpc w)) (length (devices w)), device_bus = b,
                device_type = type_tag, live = False\<rparr>])"
proof (cases "rpc w")
  case (Pair f wr)
  then have d: "devices wr = devices w" using rpc_fields(3) [of w] by simp
  show ?thesis
    using assms Pair d
    by (cases f) (auto simp: hub_create_device_def fail_def Let_def split: if_splits)
qed

lemma hub_connect_device_cases:
  assumes "hub_connect_device n w = (rc, w1)"
  shows "(rc \<noteq> VIIPER_OK \<and> devices w1 = devices w) \<or>
         (rc = VIIPER_OK \<and> n < length (devices w) \<and>
          devices w1 = (devices w)[n := (devices w ! n)\<lparr>live := True\<rparr>])"
proof (cases "rpc w")
  case (Pair f wr)
  then have d: "devices wr = devices w" using rpc_fields(3) [of w] by simp
  show ?thesis
    using assms Pair d
    by (cases f) (auto simp: hub_connect_device_def fail_def split: if_splits)
qed

lemma hub_add_device_and_connect_ok:
  assumes "hub_add_device_and_connect b type_tag w = ((VIIPER_OK, info, dev), w')"
  shows "\<exists>n. dev = Some n \<and> n < length (devices w') \<and> live (devices w' ! n) \<and>
           device_bus (devices w' ! n) = b"
proof -
  obtain r w1 where c: "hub_create_device b type_tag w = (r, w1)"
    by (cases "hub_create_device b type_tag w")
  show ?thesis
  proof (cases r)
    case (Inl e)
    with assms c hub_create_device_cases [OF c] show ?thesis
      by (auto simp: hub_add_device_and_connect_def)
  next
    case (Inr p)
    then obtain info1 n where p: "r = Inr (info1, n)" by (cases p) auto
    with hub_create_device_cases [OF c] have n: "n = length (devices w)"
      and d1: "devices w1 = devices w @
              [\<lparr>device_id = device_name (snd (rpc w)) (length (devices w)), device_bus = b,
                device_type = type_tag, live = False\<rparr>]"
      by auto
    obtain rc w2 where k: "hub_connect_device n w1 = (rc, w2)"
      by (cases "hub_connect_device n w1")
    from assms c p k have ok: "rc = VIIPER_OK" "dev = Some n" "w' = w2"
      by (auto simp: hub_add_device_and_connect_def split: viiper_error_t.splits)
    with hub_connect_device_cases [OF k]
    have d2: "devices w2 = (devices w1)[n := (devices w1 ! n)\<lparr>live := True\<rparr>]" by auto
    show ?thesis using ok d1 d2 n by (simp add: nth_append)
  qed
qed

lemma hub_add_device_and_connect_failed:
  assumes "hub_add_device_and_connect b type_tag w = ((rc, info, dev), w')" "rc \<noteq> VIIPER_OK"
  shows "dev = None \<and> filter live (devices w') = filter live (devices w)"
proof -
  obtain r w1 where c: "hub_create_device b type_tag w = (r, w1)"
    by (cases "hub_create_device b type_tag w")
  show ?thesis
  proof (cases r)
    case (Inl e)
    with assms c hub_create_device_cases [OF c] show ?thesis
      by (auto simp: hub_add_device_and_connect_def)
  next
    case (Inr p)
    then obtain info1 n where p: "r = Inr (info1, n)" by (cases p) auto
    with hub_create_device_cases [OF c] have
      d1: "devices w1 = devices w @
              [\<lparr>device_id = device_name (snd (rpc w)) (length (devices w)), device_bus = b,
                device_type = type_tag, live = False\<rparr>]"
      by auto
    obtain rc2 w2 where k: "hub_connect_device n w1 = (rc2, w2)"
      by (cases "hub_connect_device n w1")
    from assms c p k have f: "rc2 \<noteq> VIIPER_OK" "dev = None" "w' = w2"
      by (auto simp: hub_add_device_and_connect_def split: viiper_error_t.splits)
    with hub_connect_device_cases [OF k] have "devices w2 = devices w1" by auto
    with f d1 show ?thesis by simp
  qed
qed

lemma hub_device_send_live:
  "n < length (devices w) \<Longrightarrow> live (devices w ! n) \<Longrightarrow>
   fst (hub_device_send n report w) \<noteq> DeviceError Closed"
  by (simp add: hub_device_send_def)

lemma main_setup_hub_connected:
  assumes "main_setup hub_env deviceType host port w = (r, s)"
  shows "r \<noteq> Inl Undefined \<and>
         (\<forall>busId n. r = Inr (busId, n) \<longrightarrow>
            n < length (devices (fst s)) \<and> live (devices (fst s) ! n))"
proof -
  obtain rc0 w0 where c: "hub_client_create host port w = (rc0, w0)"
    by (cases "hub_client_create host port w")
  obtain busId s1 where ch: "choose_or_create_bus hub_env (w0, [Client_create host port]) = (busId, s1)"
    by (cases "choose_or_create_bus hub_env (w0, [Client_create host port])")
  obtain rc info dev w2 where a:
    "hub_add_device_and_connect busId deviceType (fst s1) = ((rc, info, dev), w2)"
    by (cases "hub_add_device_and_connect busId deviceType (fst s1)") auto
  show ?thesis
  proof (cases "rc0 = VIIPER_OK \<and> busId \<noteq> 0 \<and> rc = VIIPER_OK")
    case False
    with assms c ch a show ?thesis
      by (auto simp: main_setup_def hub_env_sel client_create_def client_free_def
          add_device_and_connect_def emit_def Let_def split: if_splits)
  next
    case True
    with a obtain n where n: "dev = Some n" "n < length (devices w2)" "live (devices w2 ! n)"
      using hub_add_device_and_connect_ok [of busId deviceType "fst s1" info dev w2] by auto
    with assms c ch a True show ?thesis
      by (auto simp: main_setup_def hub_env_sel client_create_def client_free_def
          add_device_and_connect_def emit_def Let_def split: if_splits)
  qed
qed

lemma hub_device_close_fields:
  "link_up (hub_device_close n w) = link_up w" "faults (hub_device_close n w) = faults w"
  "buses (hub_device_close n w) = buses w"
  "map device_bus (devices (hub_device_close n w)) = map device_bus (devices w)"
  by (auto simp: hub_device_close_def map_update list_update_same_conv)

lemma rpc_hub_device_close: "fst (rpc (hub_device_close n w)) = fst (rpc w)"
  by (simp add: rpc_def hub_device_close_fields split: list.splits)

lemma list_ex_device_bus:
  "list_ex (\<lambda>d. device_bus d = b) ds \<longleftrightarrow> b \<in> set (map device_bus ds)"
  by (auto simp: list_ex_iff)

lemma hub_bus_remove_not_empty:
  assumes "fst (rpc w) = None" "list_ex (\<lambda>d. device_bus d = b) (devices w)"
  shows "hub_bus_remove b w =
           (RpcError (Remote ''bus not empty''), (snd (rpc w))\<lparr>last_error := ''bus not empty''\<rparr>)"
proof (cases "rpc w")
  case (Pair f wr)
  with assms(1) have f: "f = None" by simp
  from Pair have "devices wr = devices w" using rpc_fields(3) [of w] by simp
  with assms(2) Pair f show ?thesis by (simp add: hub_bus_remove_def fail_def)
qed

lemma rpc_link_up: "fst (rpc w) = None \<Longrightarrow> link_up w"
  by (auto simp: rpc_def split: if_splits)

text \<open>Two calls on the example hub: one goes through, one times out between the two steps.\<close>

lemma hub1_connect_keyboard:
  "hub_add_device_and_connect 3 ''keyboard'' hub1 =
     ((VIIPER_OK, \<lparr>DevId = Some ''d'', Type = Some ''keyboard''\<rparr>, Some 0),
      hub1\<lparr>devices := [\<lparr>device_id = ''d'', device_bus = 3, device_type = ''keyboard'', live = True\<rparr>]\<rparr>)"
  by (simp add: hub_add_device_and_connect_def hub_create_device_def hub_connect_device_def
        rpc_def hub1_def hub0_def Let_def)

lemma hub1_connect_times_out:
  "hub_add_device_and_connect 3 ''keyboard'' (hub1\<lparr>faults := [None, Some Timeout]\<rparr>) =
     ((RpcError Timeout, \<lparr>DevId = None, Type = None\<rparr>, None),
      hub1\<lparr>faults := [], last_error := ''timeout'',
           devices := [\<lparr>device_id = ''d'', device_bus = 3, device_type = ''keyboard'', live = False\<rparr>]\<rparr>)"
  by (simp add: hub_add_device_and_connect_def hub_create_device_def hub_connect_device_def
        rpc_def hub1_def hub0_def Let_def fail_def)

lemma hub_pad_facts:
  "fst (rpc hub_pad) = None" "list_ex (\<lambda>d. device_bus d = 1) (devices hub_pad)"
  "snd (rpc hub_pad) = hub_pad" "buses hub_pad = [1]"
  by (simp_all add: rpc_def hub_pad_def hub0_def)

lemma hub_first_zero_facts:
  "viiper_bus_list hub_env hub_first_zero = ((VIIPER_OK, []), hub_first_zero)"
  "viiper_bus_create hub_env hub_first_zero = ((VIIPER_OK, 0), hub_first_zero\<lparr>buses := [0]\<rparr>)"
  by (simp_all add: hub_env_sel hub_bus_list_def hub_bus_create_def rpc_def hub_first_zero_def
      hub0_def Let_def)

lemma hub1_setup:
  "main_setup hub_env ''keyboard'' ''127.0.0.1'' 3242 hub1 =
     (Inr (3, 0),
      (hub1\<lparr>devices := [\<lparr>device_id = ''d'', device_bus = 3, device_type = ''keyboard'', live = True\<rparr>]\<rparr>,
       [Client_create ''127.0.0.1'' 3242, Bus_list, Printf ''Using existing bus %u\<newline>'' [U 3],
        Free_bus_list_response, Add_device_and_connect 3 ''keyboard'',
        Printf ''Created and connected device %s on bus %u (type: %s)\<newline>''
          [S ''d'', U 3, S ''keyboard'']]))"
proof -
  have c: "hub_client_create ''127.0.0.1'' 3242 hub1 = (VIIPER_OK, hub1)"
    by (simp add: hub_client_create_def hub1_def hub0_def)
  have l: "hub_bus_list hub1 = ((VIIPER_OK, [7, 3, 9]), hub1)"
    by (simp add: hub_bus_list_def rpc_def hub1_def hub0_def)
  have ch: "choose_or_create_bus hub_env (hub1, [Client_create ''127.0.0.1'' 3242]) =
      (3, (hub1, [Client_create ''127.0.0.1'' 3242, Bus_list,
                  Printf ''Using existing bus %u\<newline>'' [U 3], Free_bus_list_response]))"
    using l by (simp add: choose_or_create_bus_def hub_env_sel emit_def Let_def min_loop.simps)
  show ?thesis
    using c ch hub1_connect_keyboard
    by (simp add: main_setup_def client_create_def add_device_and_connect_def hub_env_sel
        emit_def Let_def)
qed

section \<open>The claims\<close>

text \<open>
  C1. A call of \<^verbatim>\<open>send_keys\<close> with a non-null \<^verbatim>\<open>keys\<close> holding at least \<^verbatim>\<open>nkeys\<close>
  bytes, or with \<^verbatim>\<open>nkeys = 0\<close>, passes to \<^verbatim>\<open>viiper_device_send\<close> a buffer of length
  \<open>2 + nkeys\<close> whose byte 0 is \<^verbatim>\<open>modifiers\<close>, whose byte 1 is \<^verbatim>\<open>nkeys\<close> and whose
  bytes from 2 on are \<^verbatim>\<open>keys[0..nkeys-1]\<close>. This is the one send of the call when the
  allocation succeeds; when it fails nothing is sent. In particular the first
  report of \<^verbatim>\<open>type_string_hello\<close> (left shift and H) is the frame
  \<open>[0x02, 0x01, code of H]\<close>.
\<close>

theorem send_keys_wire_frame:
  assumes "keys = Some ks \<and> unat nkeys \<le> length ks \<or> keys = None \<and> nkeys = 0 \<and> ks = []"
  shows "(\<forall>cells w1. heap_cells env (2 + unat nkeys) w = (Some cells, w1) \<longrightarrow>
            (let frame = modifiers # nkeys # take (unat nkeys) ks in
             send_keys env dev modifiers keys nkeys (w, tr) =
               Some (snd (viiper_device_send env dev frame w1), tr @ [Device_send dev frame]) \<and>
             length frame = 2 + unat nkeys \<and> frame ! 0 = modifiers \<and> frame ! 1 = nkeys \<and>
             (\<forall>i < unat nkeys. frame ! (2 + i) = ks ! i))) \<and>
         (\<forall>w1. heap_cells env (2 + unat nkeys) w = (None, w1) \<longrightarrow>
            send_keys env dev modifiers keys nkeys (w, tr) = Some (w1, tr)) \<and>
         (\<forall>cells w1. heap_cells env 3 w = (Some cells, w1) \<longrightarrow>
            (\<exists>s' es. type_string_hello env h dev (w, tr) = Some s' \<and>
               snd s' = tr @ Device_send dev [0x02, 0x01, VIIPER_KEYBOARD_KEY_H h] # es))"
proof (intro conjI allI impI)
  fix cells w1
  assume m: "heap_cells env (2 + unat nkeys) w = (Some cells, w1)"
  let ?frame = "modifiers # nkeys # take (unat nkeys) ks"
  have sent: "send_keys env dev modifiers keys nkeys (w, tr) =
      Some (snd (viiper_device_send env dev ?frame w1), tr @ [Device_send dev ?frame])"
  proof (cases keys)
    case None
    with assms have "nkeys = 0" "ks = []" by auto
    with None m show ?thesis by (simp add: send_keys_release)
  next
    case (Some ks')
    with assms have "ks' = ks" "unat nkeys \<le> length ks" by auto
    with Some m show ?thesis by (simp add: send_keys_some)
  qed
  have len: "unat nkeys \<le> length ks" using assms by auto
  show "let frame = modifiers # nkeys # take (unat nkeys) ks in
          send_keys env dev modifiers keys nkeys (w, tr) =
            Some (snd (viiper_device_send env dev frame w1), tr @ [Device_send dev frame]) \<and>
          length frame = 2 + unat nkeys \<and> frame ! 0 = modifiers \<and> frame ! 1 = nkeys \<and>
          (\<forall>i < unat nkeys. frame ! (2 + i) = ks ! i)"
    using sent len by (simp add: Let_def min_def)
next
  fix w1
  assume "heap_cells env (2 + unat nkeys) w = (None, w1)"
  moreover have "keys \<noteq> None \<or> nkeys = 0" using assms by auto
  ultimately show "send_keys env dev modifiers keys nkeys (w, tr) = Some (w1, tr)"
    by (rule send_keys_no_memory)
next
  fix cells w1
  assume "heap_cells env 3 w = (Some cells, w1)"
  then show "\<exists>s' es. type_string_hello env h dev (w, tr) = Some s' \<and>
      snd s' = tr @ Device_send dev [0x02, 0x01, VIIPER_KEYBOARD_KEY_H h] # es"
    by (rule type_string_hello_first)
qed

text \<open>
  C1 at concrete calls: left shift and the HID code of H on the example hub, and
  the same call with an allocator that fails.
\<close>

theorem send_keys_wire_frame_witness:
  "unat (1 :: u8) \<le> length [VIIPER_KEYBOARD_KEY_H hid_keyboard] \<and>
   heap_cells hub_env 3 hub0 = (Some (\<lambda>i. 0), hub0) \<and>
   send_keys hub_env 0 VIIPER_KEYBOARD_MOD_LEFT_SHIFT (Some [VIIPER_KEYBOARD_KEY_H hid_keyboard]) 1
       (hub0, []) =
     Some (snd (hub_device_send 0 [0x02, 0x01, 0x0B] hub0), [Device_send 0 [0x02, 0x01, 0x0B]]) \<and>
   (\<exists>s' es. type_string_hello hub_env hid_keyboard 0 (hub0, []) = Some s' \<and>
      snd s' = Device_send 0 [0x02, 0x01, 0x0B] # es) \<and>
   heap_cells no_memory_env 3 hub0 = (None, hub0) \<and>
   send_keys no_memory_env 0 VIIPER_KEYBOARD_MOD_LEFT_SHIFT (Some [0x0B]) 1 (hub0, []) =
     Some (hub0, [])"
proof -
  note ok = send_keys_wire_frame [where keys = "Some [VIIPER_KEYBOARD_KEY_H hid_keyboard]"
      and ks = "[VIIPER_KEYBOARD_KEY_H hid_keyboard]" and nkeys = 1 and env = hub_env
      and w = hub0 and modifiers = VIIPER_KEYBOARD_MOD_LEFT_SHIFT and dev = 0 and tr = "[]"
      and h = hid_keyboard]
  note no = send_keys_wire_frame [where keys = "Some [0x0B]" and ks = "[0x0B]" and nkeys = 1
      and env = no_memory_env and w = hub0 and modifiers = VIIPER_KEYBOARD_MOD_LEFT_SHIFT
      and dev = 0 and tr = "[]"]
  have m: "heap_cells hub_env 3 hub0 = (Some (\<lambda>i. 0), hub0)"
    "heap_cells no_memory_env 3 hub0 = (None, hub0)"
    by (simp_all add: hub_env_def no_memory_env_def)
  have 1: "send_keys hub_env 0 VIIPER_KEYBOARD_MOD_LEFT_SHIFT
      (Some [VIIPER_KEYBOARD_KEY_H hid_keyboard]) 1 (hub0, []) =
     Some (snd (hub_device_send 0 [0x02, 0x01, 0x0B] hub0), [Device_send 0 [0x02, 0x01, 0x0B]])"
    using ok m(1)
    by (simp add: hub_env_sel hid_keyboard_def VIIPER_KEYBOARD_MOD_LEFT_SHIFT_def Let_def)
  have 2: "\<exists>s' es. type_string_hello hub_env hid_keyboard 0 (hub0, []) = Some s' \<and>
      snd s' = Device_send 0 [0x02, 0x01, 0x0B] # es"
    using ok m(1) by (simp add: hid_keyboard_def)
  have 3: "send_keys no_memory_env 0 VIIPER_KEYBOARD_MOD_LEFT_SHIFT (Some [0x0B]) 1 (hub0, []) =
     Some (hub0, [])"
    using no m(2) by simp
  from 1 2 3 m show ?thesis by simp
qed

text \<open>
  C8. A call of \<^verbatim>\<open>send_keys\<close> with a null \<^verbatim>\<open>keys\<close> and \<^verbatim>\<open>nkeys > 0\<close> returns with the
  state unchanged: nothing is sent. With a null \<^verbatim>\<open>keys\<close> the call is never undefined,
  so the copy from a null pointer is not reached. The release-all call (null
  \<^verbatim>\<open>keys\<close>, \<^verbatim>\<open>nkeys = 0\<close>) sends the two bytes \<open>[modifiers, 0]\<close> (when the
  allocation of the two bytes succeeds).
\<close>

theorem send_keys_null_keys:
  "(nkeys \<noteq> 0 \<longrightarrow> send_keys env dev modifiers None nkeys s = Some s) \<and>
   send_keys env dev modifiers None nkeys s \<noteq> None \<and>
   (\<forall>cells w1. heap_cells env 2 w = (Some cells, w1) \<longrightarrow>
      send_keys env dev modifiers None 0 (w, tr) =
        Some (snd (viiper_device_send env dev [modifiers, 0] w1),
              tr @ [Device_send dev [modifiers, 0]]))"
proof (intro conjI allI impI)
  assume "nkeys \<noteq> 0"
  then show "send_keys env dev modifiers None nkeys s = Some s" by (rule send_keys_guard)
next
  show "send_keys env dev modifiers None nkeys s \<noteq> None"
    using send_keys_extends [of None "[]" nkeys env dev modifiers s] by auto
next
  fix cells w1
  assume "heap_cells env 2 w = (Some cells, w1)"
  then show "send_keys env dev modifiers None 0 (w, tr) =
      Some (snd (viiper_device_send env dev [modifiers, 0] w1), tr @ [Device_send dev [modifiers, 0]])"
    by (rule send_keys_release)
qed

text \<open>C8 at concrete calls on the example hub.\<close>

theorem send_keys_null_keys_witness:
  "send_keys hub_env 0 0 None 1 (hub0, []) = Some (hub0, []) \<and>
   heap_cells hub_env 2 hub0 = (Some (\<lambda>i. 0), hub0) \<and>
   send_keys hub_env 0 0 None 0 (hub0, []) =
     Some (snd (hub_device_send 0 [0, 0] hub0), [Device_send 0 [0, 0]])"
  using send_keys_null_keys [where nkeys = 1 and env = hub_env and dev = 0 and modifiers = 0
      and s = "(hub0, [])" and w = hub0 and tr = "[]"]
  by (simp add: hub_env_def)

text \<open>
  C2. When \<^verbatim>\<open>viiper_bus_list\<close> succeeds with a non-empty list,
  \<^verbatim>\<open>choose_or_create_bus\<close> returns the numeric minimum of the listed identifiers (an
  element of the list that is, as an unsigned number, at most every element) and
  does not call \<^verbatim>\<open>viiper_bus_create\<close>: the events it adds are the listing, the
  report of the bus used and the release of the list. With an empty list, and only
  then, it calls \<^verbatim>\<open>viiper_bus_create\<close> and returns the identifier the call assigned
  (or 0 when the creation failed).
\<close>

theorem choose_or_create_bus_policy:
  assumes "viiper_bus_list env w = ((VIIPER_OK, Buses), w1)"
  shows "(Buses \<noteq> [] \<longrightarrow>
            choose_or_create_bus env (w, tr) =
              (Min (set Buses),
               (w1, tr @ [Bus_list,
                          Printf ''Using existing bus %u\<newline>'' [U (unat (Min (set Buses)))],
                          Free_bus_list_response])) \<and>
            Min (set Buses) \<in> set Buses \<and>
            (\<forall>b \<in> set Buses. unat (Min (set Buses)) \<le> unat b)) \<and>
         (Buses = [] \<longrightarrow>
            (\<forall>rc BusID w2. viiper_bus_create env w1 = ((rc, BusID), w2) \<longrightarrow>
               choose_or_create_bus env (w, tr) =
                 (if rc = VIIPER_OK then BusID else 0,
                  (w2, tr @ [Bus_list, Free_bus_list_response, Bus_create,
                             if rc = VIIPER_OK
                             then Printf ''Created bus %u\<newline>'' [U (unat BusID)]
                             else Fprintf_stderr ''BusCreate failed: %s\<newline>''
                                    [S (viiper_get_error env w2)]]))))"
proof (intro conjI impI allI ballI)
  assume ne: "Buses \<noteq> []"
  show "choose_or_create_bus env (w, tr) =
      (Min (set Buses),
       (w1, tr @ [Bus_list, Printf ''Using existing bus %u\<newline>'' [U (unat (Min (set Buses)))],
                  Free_bus_list_response]))"
    using assms ne by (simp add: choose_or_create_bus_def emit_def min_loop_list Let_def)
  show "Min (set Buses) \<in> set Buses" using ne by (simp add: Min_in)
  fix b assume "b \<in> set Buses"
  then have "Min (set Buses) \<le> b" by simp
  then show "unat (Min (set Buses)) \<le> unat b" by (simp add: word_le_nat_alt)
next
  fix rc BusID w2
  assume "Buses = []" and "viiper_bus_create env w1 = ((rc, BusID), w2)"
  with assms show "choose_or_create_bus env (w, tr) =
      (if rc = VIIPER_OK then BusID else 0,
       (w2, tr @ [Bus_list, Free_bus_list_response, Bus_create,
                  if rc = VIIPER_OK then Printf ''Created bus %u\<newline>'' [U (unat BusID)]
                  else Fprintf_stderr ''BusCreate failed: %s\<newline>'' [S (viiper_get_error env w2)]]))"
    by (simp add: choose_or_create_bus_def emit_def Let_def)
qed

text \<open>C2 on the example hub: the buses 7, 3, 9 give 3; no bus gives the created bus 1.\<close>

theorem choose_or_create_bus_policy_witness:
  "viiper_bus_list hub_env hub1 = ((VIIPER_OK, [7, 3, 9]), hub1) \<and>
   choose_or_create_bus hub_env (hub1, []) =
     (3, (hub1, [Bus_list, Printf ''Using existing bus %u\<newline>'' [U 3], Free_bus_list_response])) \<and>
   viiper_bus_list hub_env (hub0\<lparr>link_up := True\<rparr>) = ((VIIPER_OK, []), hub0\<lparr>link_up := True\<rparr>) \<and>
   fst (choose_or_create_bus hub_env (hub0\<lparr>link_up := True\<rparr>, [])) = 1"
  using choose_or_create_bus_policy [where env = hub_env and w = hub1 and Buses = "[7, 3, 9]"
      and ?w1.0 = hub1 and tr = "[]"]
    choose_or_create_bus_policy [where env = hub_env and w = "hub0\<lparr>link_up := True\<rparr>"
      and Buses = "[]" and ?w1.0 = "hub0\<lparr>link_up := True\<rparr>" and tr = "[]"]
  by (simp add: hub_env_def hub1_def hub0_def hub_bus_list_def hub_bus_create_def rpc_def)

text \<open>
  C4. A delivery of \<open>bytes_read\<close> bytes (within the delivered buffer) to
  \<^verbatim>\<open>on_leds\<close> is decoded byte by byte: the lines printed are the decodings of the
  first \<open>bytes_read\<close> bytes, one per byte and in their order. A delivery of the
  three bytes \<open>[0x01, 0x00, 0x02]\<close> is decoded as three records, and a delivery of
  no bytes decodes nothing.
\<close>

theorem on_leds_decodes_every_byte:
  "(bytes_read \<le> length buffer \<longrightarrow>
      on_leds h buffer bytes_read = Some (map (leds_line h) (take bytes_read buffer)) \<and>
      length (the (on_leds h buffer bytes_read)) = bytes_read) \<and>
   on_leds h [0x01, 0x00, 0x02] 3 = Some [leds_line h 0x01, leds_line h 0x00, leds_line h 0x02] \<and>
   on_leds h buffer 0 = Some []"
proof (intro conjI impI)
  assume le: "bytes_read \<le> length buffer"
  show m: "on_leds h buffer bytes_read = Some (map (leds_line h) (take bytes_read buffer))"
    using le on_leds_loop_map [of 0 bytes_read buffer h "[]"] by (simp add: on_leds_def)
  show "length (the (on_leds h buffer bytes_read)) = bytes_read"
    using le by (simp add: m)
next
  show "on_leds h [0x01, 0x00, 0x02] 3 = Some [leds_line h 0x01, leds_line h 0x00, leds_line h 0x02]"
    using on_leds_loop_map [of 0 3 "[0x01, 0x00, 0x02]" h "[]"] by (simp add: on_leds_def)
next
  show "on_leds h buffer 0 = Some []" by (simp add: on_leds_def)
qed

text \<open>C4 at a concrete delivery, with the LED masks of the HID usage tables.\<close>

theorem on_leds_decodes_every_byte_witness:
  "(3::nat) \<le> length [0x05, 0x00, 0x12 :: u8] \<and>
   on_leds hid_keyboard [0x05, 0x00, 0x12] 3 =
     Some [Printf leds_format [U 1, U 0, U 1, U 0, U 0],
           Printf leds_format [U 0, U 0, U 0, U 0, U 0],
           Printf leds_format [U 0, U 1, U 0, U 0, U 1]]"
  using on_leds_decodes_every_byte [where bytes_read = 3 and buffer = "[0x05, 0x00, 0x12]"
      and h = hid_keyboard]
  by (simp add: leds_line_def led_bit_def hid_keyboard_def)

text \<open>
  C5. \<^verbatim>\<open>on_rumble\<close> takes the delivered bytes as the two-field structure (first
  field the left intensity, second field the right intensity) and prints those
  two fields when the delivered size is at least 2; with a smaller size it reads
  nothing (it is defined and prints nothing, whatever the buffer holds).
\<close>

theorem on_rumble_reads_two_fields:
  "(2 \<le> n \<and> n \<le> length buf \<longrightarrow>
      as_output buf = Some \<lparr>left = buf ! 0, right = buf ! 1\<rparr> \<and>
      on_rumble buf n =
        Some [Printf ([CHR 0xE2, CHR 0x86, CHR 0x90] @ '' Rumble: Left=%u, Right=%u\<newline>'')
                [U (unat (buf ! 0)), U (unat (buf ! 1))]]) \<and>
   (n < 2 \<longrightarrow> on_rumble buf n = Some [])"
  by (auto simp: on_rumble_def as_output_def load_def)

text \<open>C5 at a delivery of two bytes and at a delivery of one byte.\<close>

theorem on_rumble_reads_two_fields_witness:
  "(2::nat) \<le> 2 \<and> (2::nat) \<le> length [0xFF, 0x10 :: u8] \<and>
   on_rumble [0xFF, 0x10] 2 =
     Some [Printf ([CHR 0xE2, CHR 0x86, CHR 0x90] @ '' Rumble: Left=%u, Right=%u\<newline>'')
             [U 255, U 16]] \<and>
   (1::nat) < 2 \<and> on_rumble [0xFF] 1 = Some []"
  using on_rumble_reads_two_fields [where n = 2 and buf = "[0xFF, 0x10]"]
    on_rumble_reads_two_fields [where n = 1 and buf = "[0xFF]"]
  by simp

text \<open>
  C3, as amended. For every command line the argument handling is defined, and:
  without an argument (\<^verbatim>\<open>argc <= 1\<close>) both programs connect to host 127.0.0.1,
  port 3242. With one argument that contains a colon, the argument is
  \<open>hostpart:portpart\<close> with no colon in \<open>portpart\<close>; the host is \<open>hostpart\<close>, cut
  to its first 255 characters when it is longer, and the port is parsed from
  \<open>portpart\<close>: it is the result of \<^verbatim>\<open>atoi(portpart)\<close> as a 16-bit value, whatever
  the port part holds. With one argument without a colon, or with more than one
  argument, the program prints its usage line and returns 1 with the world
  untouched: it does not connect. Whenever an address is found, the first thing
  either program does is \<^verbatim>\<open>viiper_client_create\<close> with that host and port.
\<close>

theorem main_address_cases:
  "main_address env argv \<noteq> None \<and>
   (length argv \<le> 1 \<longrightarrow> main_address env argv = Some (Some (''127.0.0.1'', 3242))) \<and>
   (length argv = 2 \<and> CHR '':'' \<in> set (argv ! 1) \<longrightarrow>
      (\<exists>hostpart portpart.
         argv = [argv ! 0, hostpart @ CHR '':'' # portpart] \<and> CHR '':'' \<notin> set portpart)) \<and>
   (\<forall>prog hostpart portpart.
      argv = [prog, hostpart @ CHR '':'' # portpart] \<and> CHR '':'' \<notin> set portpart \<and>
      CHR 0x00 \<notin> set hostpart \<longrightarrow>
      main_address env argv = Some (Some (take 255 hostpart, ucast (atoi env portpart)))) \<and>
   (length argv = 2 \<and> CHR '':'' \<notin> set (argv ! 1) \<or> length argv > 2 \<longrightarrow>
      main_address env argv = Some None) \<and>
   (main_address env argv = Some None \<longrightarrow>
      keyboard_main env kh fuel argv w =
        (Returned 1, (w, [Fprintf_stderr ''Usage: virtual_keyboard [host:port]\<newline>'' []])) \<and>
      x360_main env xh fuel argv w =
        (Returned 1, (w, [Fprintf_stderr ''Usage: virtual_x360_pad [host:port]\<newline>'' []]))) \<and>
   (\<forall>host port. main_address env argv = Some (Some (host, port)) \<longrightarrow>
      (\<exists>out w' es. keyboard_main env kh fuel argv w = (out, (w', Client_create host port # es))) \<and>
      (\<exists>out w' es. x360_main env xh fuel argv w = (out, (w', Client_create host port # es))))"
proof (intro conjI allI impI)
  show "main_address env argv \<noteq> None" by (rule main_address_defined)
next
  assume "length argv \<le> 1"
  then show "main_address env argv = Some (Some (''127.0.0.1'', 3242))"
    by (rule main_address_default)
next
  assume a: "length argv = 2 \<and> CHR '':'' \<in> set (argv ! 1)"
  then obtain hostpart portpart where
    s: "argv ! 1 = hostpart @ CHR '':'' # portpart" "CHR '':'' \<notin> set portpart"
    using split_list_last [of "CHR '':''" "argv ! 1"] by blast
  from a have "argv = [argv ! 0, argv ! 1]"
    by (cases argv; cases "tl argv") auto
  with s show "\<exists>hostpart portpart.
      argv = [argv ! 0, hostpart @ CHR '':'' # portpart] \<and> CHR '':'' \<notin> set portpart"
    by metis
next
  fix prog hostpart portpart
  assume a: "argv = [prog, hostpart @ CHR '':'' # portpart] \<and> CHR '':'' \<notin> set portpart \<and>
      CHR 0x00 \<notin> set hostpart"
  then show "main_address env argv = Some (Some (take 255 hostpart, ucast (atoi env portpart)))"
    using main_address_host_port [of argv prog hostpart portpart env] by simp
next
  assume "length argv = 2 \<and> CHR '':'' \<notin> set (argv ! 1) \<or> length argv > 2"
  then show "main_address env argv = Some None"
    using main_address_no_colon [of argv env] main_address_many [of argv env] by auto
next
  assume u: "main_address env argv = Some None"
  show "keyboard_main env kh fuel argv w =
      (Returned 1, (w, [Fprintf_stderr ''Usage: virtual_keyboard [host:port]\<newline>'' []]))"
    using u by (simp add: keyboard_main_def)
  show "x360_main env xh fuel argv w =
      (Returned 1, (w, [Fprintf_stderr ''Usage: virtual_x360_pad [host:port]\<newline>'' []]))"
    using u by (simp add: x360_main_def)
next
  fix host port
  assume c: "main_address env argv = Some (Some (host, port))"
  show "\<exists>out w' es. keyboard_main env kh fuel argv w = (out, (w', Client_create host port # es))"
    using c by (rule keyboard_main_first)
  show "\<exists>out w' es. x360_main env xh fuel argv w = (out, (w', Client_create host port # es))"
    using c by (rule x360_main_first)
qed

text \<open>
  C3 at concrete command lines, among them a port that is no number and a port
  that does not fit \<^verbatim>\<open>int\<close>.
\<close>

theorem main_address_cases_witness:
  "main_address hub_env [''virtual_keyboard''] = Some (Some (''127.0.0.1'', 3242)) \<and>
   (\<exists>out w' es. keyboard_main hub_env hid_keyboard 1 [''virtual_keyboard''] hub0 =
      (out, (w', Client_create ''127.0.0.1'' 3242 # es))) \<and>
   main_address hub_env [''virtual_keyboard'', ''localhost:8080''] = Some (Some (''localhost'', 8080)) \<and>
   main_address hub_env [''virtual_keyboard'', ''h:99999999999''] = Some (Some (''h'', 59391)) \<and>
   (\<exists>out w' es. keyboard_main hub_env hid_keyboard 1 [''virtual_keyboard'', ''h:99999999999''] hub0 =
      (out, (w', Client_create ''h'' 59391 # es))) \<and>
   main_address hub_env [''virtual_keyboard'', ''localhost''] = Some None \<and>
   main_address hub_env [''virtual_keyboard'', ''localhost:8080'', ''x''] = Some None \<and>
   keyboard_main hub_env hid_keyboard 1 [''virtual_keyboard'', ''localhost''] hub0 =
     (Returned 1, (hub0, [Fprintf_stderr ''Usage: virtual_keyboard [host:port]\<newline>'' []]))"
proof -
  note d = main_address_cases [where env = hub_env and argv = "[''virtual_keyboard'']"
      and kh = hid_keyboard and fuel = 1 and w = hub0]
  note a = main_address_cases [where env = hub_env
      and argv = "[''virtual_keyboard'', ''localhost:8080'']"]
  note b = main_address_cases [where env = hub_env
      and argv = "[''virtual_keyboard'', ''h:99999999999'']"
      and kh = hid_keyboard and fuel = 1 and w = hub0]
  note n = main_address_cases [where env = hub_env and argv = "[''virtual_keyboard'', ''localhost'']"
      and kh = hid_keyboard and fuel = 1 and w = hub0]
  note m = main_address_cases [where env = hub_env
      and argv = "[''virtual_keyboard'', ''localhost:8080'', ''x'']"]
  have 1: "main_address hub_env [''virtual_keyboard''] = Some (Some (''127.0.0.1'', 3242))"
    using d by simp
  have 2: "\<exists>out w' es. keyboard_main hub_env hid_keyboard 1 [''virtual_keyboard''] hub0 =
      (out, (w', Client_create ''127.0.0.1'' 3242 # es))"
    using d 1 by blast
  have 3: "main_address hub_env [''virtual_keyboard'', ''localhost:8080''] =
      Some (Some (''localhost'', 8080))"
    using a [THEN conjunct2, THEN conjunct2, THEN conjunct2, THEN conjunct1, rule_format,
        of "''virtual_keyboard''" "''localhost''" "''8080''"]
    by (simp add: atoi_8080)
  have 4: "main_address hub_env [''virtual_keyboard'', ''h:99999999999''] =
      Some (Some (''h'', 59391))"
    using b [THEN conjunct2, THEN conjunct2, THEN conjunct2, THEN conjunct1, rule_format,
        of "''virtual_keyboard''" "''h''" "''99999999999''"]
    by (simp add: port_99999999999)
  have 5: "\<exists>out w' es. keyboard_main hub_env hid_keyboard 1
      [''virtual_keyboard'', ''h:99999999999''] hub0 = (out, (w', Client_create ''h'' 59391 # es))"
    using b 4 by blast
  have 6: "main_address hub_env [''virtual_keyboard'', ''localhost''] = Some None"
    using n by simp
  have 7: "main_address hub_env [''virtual_keyboard'', ''localhost:8080'', ''x''] = Some None"
    using m by simp
  have 8: "keyboard_main hub_env hid_keyboard 1 [''virtual_keyboard'', ''localhost''] hub0 =
     (Returned 1, (hub0, [Fprintf_stderr ''Usage: virtual_keyboard [host:port]\<newline>'' []]))"
    using n 6 by blast
  from 1 2 3 4 5 6 7 8 show ?thesis by blast
qed

text \<open>
  C3 as stated fails for a long host: with 256 characters before the last colon,
  the host that is used is not the substring before the last colon but its first
  255 characters.
\<close>

theorem main_address_long_host_counterexample:
  "strrchr (replicate 256 CHR ''a'' @ '':1'') CHR '':'' = Some 256 \<and>
   take 256 (replicate 256 CHR ''a'' @ '':1'') = replicate 256 CHR ''a'' \<and>
   main_address hub_env [''virtual_keyboard'', replicate 256 CHR ''a'' @ '':1''] =
     Some (Some (replicate 255 CHR ''a'', 1)) \<and>
   replicate 255 CHR ''a'' \<noteq> replicate 256 CHR ''a''"
proof -
  have "strrchr (replicate 256 CHR ''a'' @ CHR '':'' # ''1'') CHR '':'' = Some (length (replicate 256 CHR ''a''))"
    by (rule strrchr_last) simp
  then have 1: "strrchr (replicate 256 CHR ''a'' @ '':1'') CHR '':'' = Some 256" by simp
  have 2: "take 256 (replicate 256 CHR ''a'' @ '':1'') = replicate 256 CHR ''a''" by simp
  have 3: "main_address hub_env [''virtual_keyboard'', replicate 256 CHR ''a'' @ '':1''] =
     Some (Some (replicate 255 CHR ''a'', 1))"
    using main_address_host_port [of "[''virtual_keyboard'', replicate 256 CHR ''a'' @ '':1'']"
        "''virtual_keyboard''" "replicate 256 CHR ''a''" "''1''" hub_env]
    by (simp add: atoi_1)
  have "length (replicate 255 CHR ''a'') \<noteq> length (replicate 256 CHR ''a'')" by simp
  then have 4: "replicate 255 CHR ''a'' \<noteq> replicate 256 CHR ''a''" by metis
  from 1 2 3 4 show ?thesis by blast
qed

text \<open>
  C9. \<^verbatim>\<open>choose_or_create_bus\<close> returns 0 when the listing fails and when the
  creation fails; it also returns 0 when the hub lists a bus 0 (the minimum) or
  assigns 0 to the created bus. \<^verbatim>\<open>main\<close> of both programs treats every 0 alike: it
  frees the client and returns 1, without creating a device.
\<close>

theorem zero_bus_is_fatal:
  "(\<forall>rc Buses w1. viiper_bus_list env w = ((rc, Buses), w1) \<and> rc \<noteq> VIIPER_OK \<longrightarrow>
      fst (choose_or_create_bus env (w, tr)) = 0) \<and>
   (\<forall>w1 rc BusID w2.
      viiper_bus_list env w = ((VIIPER_OK, []), w1) \<and>
      viiper_bus_create env w1 = ((rc, BusID), w2) \<and> (rc \<noteq> VIIPER_OK \<or> BusID = 0) \<longrightarrow>
      fst (choose_or_create_bus env (w, tr)) = 0) \<and>
   (\<forall>Buses w1. viiper_bus_list env w = ((VIIPER_OK, Buses), w1) \<and> 0 \<in> set Buses \<longrightarrow>
      fst (choose_or_create_bus env (w, tr)) = 0) \<and>
   (\<forall>host port w0 s1.
      viiper_client_create env host port w = (VIIPER_OK, w0) \<and>
      choose_or_create_bus env (w0, [Client_create host port]) = (0, s1) \<longrightarrow>
      main_setup env deviceType host port w =
        (Inl (Returned 1), (viiper_client_free env (fst s1), snd s1 @ [Client_free])) \<and>
      (main_address env argv = Some (Some (host, port)) \<longrightarrow>
         keyboard_main env kh fuel argv w =
           (Returned 1, (viiper_client_free env (fst s1), snd s1 @ [Client_free])) \<and>
         x360_main env xh fuel argv w =
           (Returned 1, (viiper_client_free env (fst s1), snd s1 @ [Client_free]))))"
proof (intro conjI allI impI)
  fix rc Buses w1
  assume "viiper_bus_list env w = ((rc, Buses), w1) \<and> rc \<noteq> VIIPER_OK"
  then show "fst (choose_or_create_bus env (w, tr)) = 0"
    by (simp add: choose_or_create_bus_def Let_def)
next
  fix w1 rc BusID w2
  assume "viiper_bus_list env w = ((VIIPER_OK, []), w1) \<and>
      viiper_bus_create env w1 = ((rc, BusID), w2) \<and> (rc \<noteq> VIIPER_OK \<or> BusID = 0)"
  then show "fst (choose_or_create_bus env (w, tr)) = 0"
    by (auto simp: choose_or_create_bus_def Let_def)
next
  fix Buses w1
  assume a: "viiper_bus_list env w = ((VIIPER_OK, Buses), w1) \<and> 0 \<in> set Buses"
  then have "Buses \<noteq> []" by auto
  with a show "fst (choose_or_create_bus env (w, tr)) = 0"
    by (simp add: choose_or_create_bus_def Let_def min_loop_list Min_zero)
next
  fix host port w0 s1
  assume a: "viiper_client_create env host port w = (VIIPER_OK, w0) \<and>
      choose_or_create_bus env (w0, [Client_create host port]) = (0, s1)"
  then show s: "main_setup env deviceType host port w =
      (Inl (Returned 1), (viiper_client_free env (fst s1), snd s1 @ [Client_free]))" for deviceType
    by (simp add: main_setup_def client_create_def client_free_def)
  assume m: "main_address env argv = Some (Some (host, port))"
  show "keyboard_main env kh fuel argv w =
      (Returned 1, (viiper_client_free env (fst s1), snd s1 @ [Client_free]))"
    using m s [of "''keyboard''"] by (simp add: keyboard_main_def)
  show "x360_main env xh fuel argv w =
      (Returned 1, (viiper_client_free env (fst s1), snd s1 @ [Client_free]))"
    using m s [of "''xbox360''"] by (simp add: x360_main_def)
qed

text \<open>C9 on example hubs: a listed bus 0, a listing that fails, and a created bus 0.\<close>

theorem zero_bus_is_fatal_witness:
  "viiper_bus_list hub_env (hub_zero\<lparr>link_up := True\<rparr>) =
     ((VIIPER_OK, [5, 0]), hub_zero\<lparr>link_up := True\<rparr>) \<and>
   fst (choose_or_create_bus hub_env (hub_zero\<lparr>link_up := True\<rparr>, [])) = 0 \<and>
   viiper_bus_list hub_env hub0 = ((RpcError Transport, []), fail (RpcError Transport) hub0) \<and>
   fst (choose_or_create_bus hub_env (hub0, [])) = 0 \<and>
   viiper_bus_create hub_env hub_first_zero = ((VIIPER_OK, 0), hub_first_zero\<lparr>buses := [0]\<rparr>) \<and>
   fst (choose_or_create_bus hub_env (hub_first_zero, [])) = 0 \<and>
   keyboard_main hub_env hid_keyboard 2 [''virtual_keyboard''] hub_zero =
     (Returned 1,
      (hub_client_free (hub_zero\<lparr>link_up := True\<rparr>),
       [Client_create ''127.0.0.1'' 3242, Bus_list,
        Printf ''Using existing bus %u\<newline>'' [U 0], Free_bus_list_response, Client_free]))"
proof -
  let ?w = "hub_zero\<lparr>link_up := True\<rparr>"
  have l: "viiper_bus_list hub_env ?w = ((VIIPER_OK, [5, 0]), ?w)"
    by (simp add: hub_env_def hub_bus_list_def rpc_def hub_zero_def hub0_def)
  have f: "viiper_bus_list hub_env hub0 = ((RpcError Transport, []), fail (RpcError Transport) hub0)"
    by (simp add: hub_env_def hub_bus_list_def rpc_def hub0_def)
  have c: "viiper_client_create hub_env ''127.0.0.1'' 3242 hub_zero = (VIIPER_OK, ?w)"
    by (simp add: hub_env_def hub_client_create_def hub_zero_def hub0_def)
  have ch: "choose_or_create_bus hub_env (?w, [Client_create ''127.0.0.1'' 3242]) =
      (0, (?w, [Client_create ''127.0.0.1'' 3242, Bus_list,
                Printf ''Using existing bus %u\<newline>'' [U 0], Free_bus_list_response]))"
    using l by (simp add: choose_or_create_bus_def emit_def Let_def min_loop.simps)
  have a: "main_address hub_env [''virtual_keyboard''] = Some (Some (''127.0.0.1'', 3242))"
    by (simp add: main_address_default)
  note z1 = zero_bus_is_fatal [where env = hub_env and w = ?w and tr = "[]",
      THEN conjunct2, THEN conjunct2, THEN conjunct1, rule_format, of "[5, 0]" ?w]
  note z2 = zero_bus_is_fatal [where env = hub_env and w = hub0 and tr = "[]",
      THEN conjunct1, rule_format, of "RpcError Transport" "[]" "fail (RpcError Transport) hub0"]
  note z3 = zero_bus_is_fatal [where env = hub_env and w = hub_zero and kh = hid_keyboard
      and fuel = 2 and argv = "[''virtual_keyboard'']",
      THEN conjunct2, THEN conjunct2, THEN conjunct2, rule_format,
      of "''127.0.0.1''" 3242 ?w _ , THEN conjunct2, rule_format, THEN conjunct1]
  note z4 = zero_bus_is_fatal [where env = hub_env and w = hub_first_zero and tr = "[]",
      THEN conjunct2, THEN conjunct1, rule_format,
      of hub_first_zero VIIPER_OK 0 "hub_first_zero\<lparr>buses := [0]\<rparr>"]
  have 4: "fst (choose_or_create_bus hub_env (hub_first_zero, [])) = 0"
    using z4 hub_first_zero_facts by simp
  have 1: "fst (choose_or_create_bus hub_env (?w, [])) = 0" using z1 l by simp
  have 2: "fst (choose_or_create_bus hub_env (hub0, [])) = 0" using z2 f by simp
  have 3: "keyboard_main hub_env hid_keyboard 2 [''virtual_keyboard''] hub_zero =
     (Returned 1,
      (hub_client_free ?w,
       [Client_create ''127.0.0.1'' 3242, Bus_list,
        Printf ''Using existing bus %u\<newline>'' [U 0], Free_bus_list_response, Client_free]))"
    using z3 [OF conjI [OF c ch] a] by (simp add: hub_env_def)
  from l f 1 2 3 4 hub_first_zero_facts(2) show ?thesis by simp
qed



text \<open>
  C6. In the library modelled from the specification, a successful
  \<^verbatim>\<open>viiper_add_device_and_connect\<close> returns the handle of a device that is on the
  requested bus and already connected, so that a \<^verbatim>\<open>viiper_device_send\<close> that follows
  immediately does not fail with \<open>DeviceError Closed\<close>. A failing call returns no
  handle and leaves the connected devices as they were. Linked against that
  library, \<^verbatim>\<open>main\<close> of either program never goes on with a null handle, and the
  handle it goes on with accepts a send.
\<close>

theorem create_and_connect_atomic:
  "(\<forall>rc info dev w'.
      hub_add_device_and_connect b type_tag w = ((rc, info, dev), w') \<longrightarrow>
      (rc = VIIPER_OK \<longrightarrow>
         (\<exists>n. dev = Some n \<and> n < length (devices w') \<and> live (devices w' ! n) \<and>
            device_bus (devices w' ! n) = b \<and>
            fst (hub_device_send n report w') \<noteq> DeviceError Closed)) \<and>
      (rc \<noteq> VIIPER_OK \<longrightarrow>
         dev = None \<and> filter live (devices w') = filter live (devices w))) \<and>
   (\<forall>r s. main_setup hub_env deviceType host port w = (r, s) \<longrightarrow>
      r \<noteq> Inl Undefined \<and>
      (\<forall>busId n. r = Inr (busId, n) \<longrightarrow>
         fst (hub_device_send n report (fst s)) \<noteq> DeviceError Closed))"
proof (intro conjI allI impI)
  fix rc info dev w'
  assume a: "hub_add_device_and_connect b type_tag w = ((rc, info, dev), w')"
  {
    assume "rc = VIIPER_OK"
    with a obtain n where n: "dev = Some n" "n < length (devices w')" "live (devices w' ! n)"
        "device_bus (devices w' ! n) = b"
      using hub_add_device_and_connect_ok [of b type_tag w info dev w'] by auto
    then show "\<exists>n. dev = Some n \<and> n < length (devices w') \<and> live (devices w' ! n) \<and>
        device_bus (devices w' ! n) = b \<and>
        fst (hub_device_send n report w') \<noteq> DeviceError Closed"
      using hub_device_send_live [of n w' report] by simp
  }
  {
    assume f: "rc \<noteq> VIIPER_OK"
    from hub_add_device_and_connect_failed [OF a f]
    show "dev = None" and "filter live (devices w') = filter live (devices w)" by simp_all
  }
next
  fix r s
  assume m: "main_setup hub_env deviceType host port w = (r, s)"
  from main_setup_hub_connected [OF m] show "r \<noteq> Inl Undefined" by simp
  fix busId n
  assume "r = Inr (busId, n)"
  with main_setup_hub_connected [OF m]
  have "n < length (devices (fst s))" "live (devices (fst s) ! n)" by auto
  then show "fst (hub_device_send n report (fst s)) \<noteq> DeviceError Closed"
    by (rule hub_device_send_live)
qed

text \<open>
  C6 on the example hub: a call that succeeds, one whose second step times out,
  and the start of \<^verbatim>\<open>main\<close> of the keyboard program.
\<close>

theorem create_and_connect_atomic_witness:
  "hub_add_device_and_connect 3 ''keyboard'' hub1 =
     ((VIIPER_OK, \<lparr>DevId = Some ''d'', Type = Some ''keyboard''\<rparr>, Some 0),
      hub1\<lparr>devices := [\<lparr>device_id = ''d'', device_bus = 3, device_type = ''keyboard'', live = True\<rparr>]\<rparr>) \<and>
   fst (hub_device_send 0 [0x02, 0x01, 0x0B]
     (hub1\<lparr>devices := [\<lparr>device_id = ''d'', device_bus = 3, device_type = ''keyboard'', live = True\<rparr>]\<rparr>))
     \<noteq> DeviceError Closed \<and>
   fst (fst (hub_add_device_and_connect 3 ''keyboard'' (hub1\<lparr>faults := [None, Some Timeout]\<rparr>))) =
     RpcError Timeout \<and>
   snd (snd (fst (hub_add_device_and_connect 3 ''keyboard'' (hub1\<lparr>faults := [None, Some Timeout]\<rparr>)))) =
     None \<and>
   fst (main_setup hub_env ''keyboard'' ''127.0.0.1'' 3242 hub1) = Inr (3, 0) \<and>
   fst (hub_device_send 0 [0x02, 0x01, 0x0B]
     (fst (snd (main_setup hub_env ''keyboard'' ''127.0.0.1'' 3242 hub1)))) \<noteq> DeviceError Closed"
proof -
  note t3 = create_and_connect_atomic [where deviceType = "''keyboard''" and host = "''127.0.0.1''"
      and port = 3242 and w = hub1 and report = "[0x02, 0x01, 0x0B]",
      THEN conjunct2, rule_format, OF hub1_setup, THEN conjunct2, rule_format, of 3 0]
  have 3: "fst (hub_device_send 0 [0x02, 0x01, 0x0B]
     (fst (snd (main_setup hub_env ''keyboard'' ''127.0.0.1'' 3242 hub1)))) \<noteq> DeviceError Closed"
    using t3 by (simp add: hub1_setup)
  note t1 = create_and_connect_atomic [where b = 3 and type_tag = "''keyboard''" and w = hub1
      and report = "[0x02, 0x01, 0x0B]", THEN conjunct1, rule_format, OF hub1_connect_keyboard]
  note t2 = create_and_connect_atomic [where b = 3 and type_tag = "''keyboard''"
      and w = "hub1\<lparr>faults := [None, Some Timeout]\<rparr>", THEN conjunct1, rule_format, OF hub1_connect_times_out]
  have 1: "fst (hub_device_send 0 [0x02, 0x01, 0x0B]
     (hub1\<lparr>devices := [\<lparr>device_id = ''d'', device_bus = 3, device_type = ''keyboard'', live = True\<rparr>]\<rparr>))
     \<noteq> DeviceError Closed"
    using t1 [THEN conjunct1] by simp
  have 2: "snd (snd (fst (hub_add_device_and_connect 3 ''keyboard''
      (hub1\<lparr>faults := [None, Some Timeout]\<rparr>)))) = None"
    using t2 [THEN conjunct2] by (simp add: hub1_connect_times_out)
  show ?thesis using 1 2 3 by (simp add: hub1_connect_keyboard hub1_connect_times_out hub1_setup)
qed

text \<open>
  C7. In the library modelled from the specification, \<^verbatim>\<open>viiper_bus_remove\<close> on a bus
  that still has devices attached, when the request reaches the hub, fails with a
  remote error. The failure is recoverable: the hub's message can be read with
  \<^verbatim>\<open>viiper_get_error\<close>, the bus stays listed, devices and sent reports are untouched,
  the connection is still up and a following \<^verbatim>\<open>viiper_bus_list\<close> that reaches the hub
  succeeds. The pad program, at the end of \<^verbatim>\<open>main\<close>, prints the message, goes on to
  free the client and returns 0.
\<close>

theorem remove_bus_with_devices:
  assumes "fst (rpc w) = None" and "list_ex (\<lambda>d. device_bus d = b) (devices w)"
  shows "\<exists>w'. hub_bus_remove b w = (RpcError (Remote ''bus not empty''), w') \<and>
           hub_get_error w' = ''bus not empty'' \<and>
           buses w' = buses w \<and> devices w' = devices w \<and> sent w' = sent w \<and> link_up w' \<and>
           (fst (rpc w') = None \<longrightarrow> fst (hub_bus_list w') = (VIIPER_OK, buses w)) \<and>
           (\<exists>w2. x360_teardown hub_env dev b (w, tr) =
              (Returned 0,
               (w2, tr @ [Device_close dev, Bus_remove b,
                          Fprintf_stderr ''BusRemove failed (continuing): %s\<newline>''
                            [S ''bus not empty''],
                          Client_free])))"
proof -
  let ?w' = "(snd (rpc w))\<lparr>last_error := ''bus not empty''\<rparr>"
  have r: "hub_bus_remove b w = (RpcError (Remote ''bus not empty''), ?w')"
    using assms by (rule hub_bus_remove_not_empty)
  have e: "hub_get_error ?w' = ''bus not empty''" by (simp add: hub_get_error_def)
  have k: "buses ?w' = buses w" "devices ?w' = devices w" "sent ?w' = sent w" "link_up ?w'"
    using rpc_link_up [OF assms(1)] by (simp_all add: rpc_fields)
  have l: "fst (rpc ?w') = None \<longrightarrow> fst (hub_bus_list ?w') = (VIIPER_OK, buses w)"
  proof
    assume n: "fst (rpc ?w') = None"
    obtain f wr where p: "rpc ?w' = (f, wr)" by (cases "rpc ?w'")
    with n have "f = None" by simp
    moreover from p have "buses wr = buses ?w'" using rpc_fields(2) [of ?w'] by simp
    ultimately show "fst (hub_bus_list ?w') = (VIIPER_OK, buses w)"
      using p k by (simp add: hub_bus_list_def)
  qed
  let ?c = "hub_device_close dev w"
  have c1: "fst (rpc ?c) = None" using assms(1) by (simp add: rpc_hub_device_close)
  have c2: "list_ex (\<lambda>d. device_bus d = b) (devices ?c)"
    using assms(2) by (simp add: list_ex_device_bus hub_device_close_fields)
  have "hub_bus_remove b ?c =
      (RpcError (Remote ''bus not empty''), (snd (rpc ?c))\<lparr>last_error := ''bus not empty''\<rparr>)"
    using c1 c2 by (rule hub_bus_remove_not_empty)
  then have t: "\<exists>w2. x360_teardown hub_env dev b (w, tr) =
      (Returned 0,
       (w2, tr @ [Device_close dev, Bus_remove b,
                  Fprintf_stderr ''BusRemove failed (continuing): %s\<newline>'' [S ''bus not empty''],
                  Client_free]))"
    by (simp add: x360_teardown_def bus_remove_def device_close_def client_free_def emit_def
        hub_env_sel hub_get_error_def)
  show ?thesis
  proof (rule exI [of _ ?w'], intro conjI)
    show "hub_bus_remove b w = (RpcError (Remote ''bus not empty''), ?w')" by (rule r)
    show "hub_get_error ?w' = ''bus not empty''" by (rule e)
    show "buses ?w' = buses w" by (rule k)
    show "devices ?w' = devices w" by (rule k)
    show "sent ?w' = sent w" by (rule k)
    show "link_up ?w'" by (rule k)
    show "fst (rpc ?w') = None \<longrightarrow> fst (hub_bus_list ?w') = (VIIPER_OK, buses w)" by (rule l)
    show "\<exists>w2. x360_teardown hub_env dev b (w, tr) =
      (Returned 0,
       (w2, tr @ [Device_close dev, Bus_remove b,
                  Fprintf_stderr ''BusRemove failed (continuing): %s\<newline>'' [S ''bus not empty''],
                  Client_free]))" by (rule t)
  qed
qed

text \<open>C7 on the example hub with a pad on bus 1.\<close>

theorem remove_bus_with_devices_witness:
  "fst (rpc hub_pad) = None \<and> list_ex (\<lambda>d. device_bus d = 1) (devices hub_pad) \<and>
   fst (hub_bus_remove 1 hub_pad) = RpcError (Remote ''bus not empty'') \<and>
   hub_get_error (snd (hub_bus_remove 1 hub_pad)) = ''bus not empty'' \<and>
   buses (snd (hub_bus_remove 1 hub_pad)) = [1] \<and>
   fst (hub_bus_list (snd (hub_bus_remove 1 hub_pad))) = (VIIPER_OK, [1]) \<and>
   fst (x360_teardown hub_env 0 1 (hub_pad, [])) = Returned 0"
proof -
  from remove_bus_with_devices [OF hub_pad_facts(1) hub_pad_facts(2), of 0 "[]"]
  obtain w' w2 where w': "hub_bus_remove 1 hub_pad = (RpcError (Remote ''bus not empty''), w')"
    "hub_get_error w' = ''bus not empty''" "buses w' = buses hub_pad"
    "fst (rpc w') = None \<longrightarrow> fst (hub_bus_list w') = (VIIPER_OK, buses hub_pad)"
    "x360_teardown hub_env 0 1 (hub_pad, []) =
        (Returned 0,
         (w2, [] @ [Device_close 0, Bus_remove 1,
                   Fprintf_stderr ''BusRemove failed (continuing): %s\<newline>'' [S ''bus not empty''],
                   Client_free]))"
    by auto
  have "w' = hub_pad\<lparr>last_error := ''bus not empty''\<rparr>"
    using w'(1) hub_bus_remove_not_empty [OF hub_pad_facts(1) hub_pad_facts(2)]
    by (simp add: hub_pad_facts)
  then have "fst (rpc w') = None" by (simp add: rpc_def hub_pad_def hub0_def)
  with w' show ?thesis by (simp add: hub_pad_facts)
qed

end
